theory Spec2Isabelle
  imports Complex_Main "HOL-Library.Sublist" "HOL-Library.Multiset"
begin

section \<open>Exceptions, dictionaries and strings\<close>

text \<open>
  The model follows \<^verbatim>\<open>src/aegis/visualizations.py\<close>: the Python methods of
  \<^verbatim>\<open>AegisVisualizer\<close> and the JavaScript components of the dashboard template that
  \<^verbatim>\<open>_generate_dashboard_html\<close> emits. A Python exception is the left injection of a sum.
  Scores, gaps and angles are floating-point numbers, modelled as exact reals without NaN,
  infinities or rounding; counts are Python integers, modelled as \<open>int\<close>. The costs, which
  the code adds up, are integers or floats, and are added as the two languages add them
  (section Numbers). A character is a code point below 256. Calls into numpy,
  matplotlib, \<^verbatim>\<open>json\<close> and \<^verbatim>\<open>csv\<close> are modelled by what they are documented to return; the
  charts are the data handed to the drawing calls.
\<close>

datatype error =
    FileNotFoundError
  | JSONDecodeError
  | ValueError
  | KeyError string
  | IndexError
  | AttributeError
  | TypeError
  | OverflowError

type_synonym 'a result = "error + 'a"

definition rbind :: "'a result \<Rightarrow> ('a \<Rightarrow> 'b result) \<Rightarrow> 'b result" where
  "rbind m f = (case m of Inl e \<Rightarrow> Inl e | Inr x \<Rightarrow> f x)"

text \<open>A list comprehension \<^verbatim>\<open>[f(x) for x in xs]\<close> whose element expression may raise.\<close>

fun collect :: "('a \<Rightarrow> 'b result) \<Rightarrow> 'a list \<Rightarrow> 'b list result" where
  "collect f [] = Inr []"
| "collect f (x # xs) = rbind (f x) (\<lambda>y. rbind (collect f xs) (\<lambda>ys. Inr (y # ys)))"

text \<open>
  A JSON object with known keys is a record whose fields are optional: \<open>None\<close> is an absent
  key. \<open>get v d\<close> is \<^verbatim>\<open>obj.get(key, d)\<close>, \<open>item key v\<close> is \<^verbatim>\<open>obj[key]\<close>.
\<close>

definition get :: "'a option \<Rightarrow> 'a \<Rightarrow> 'a" where
  "get v d = (case v of None \<Rightarrow> d | Some x \<Rightarrow> x)"

definition item :: "string \<Rightarrow> 'a option \<Rightarrow> 'a result" where
  "item key v = (case v of None \<Rightarrow> Inl (KeyError key) | Some x \<Rightarrow> Inr x)"

text \<open>A literal dictionary is an association list; \<open>dict_get\<close> and \<open>dict_item\<close> read it.\<close>

definition dict_get :: "(string \<times> 'v) list \<Rightarrow> string \<Rightarrow> 'v \<Rightarrow> 'v" where
  "dict_get d k dflt = (case map_of d k of None \<Rightarrow> dflt | Some v \<Rightarrow> v)"

definition dict_item :: "(string \<times> 'v) list \<Rightarrow> string \<Rightarrow> 'v result" where
  "dict_item d k = (case map_of d k of None \<Rightarrow> Inl (KeyError k) | Some v \<Rightarrow> Inr v)"

text \<open>
  Reading a property of a JavaScript object literal: an own property, else a member that
  every object literal inherits from \<^verbatim>\<open>Object.prototype\<close> (a function or an object, hence
  truthy, with no \<^verbatim>\<open>x\<close> or \<^verbatim>\<open>y\<close> of its own), else \<^verbatim>\<open>undefined\<close>.
\<close>

datatype 'v js_property = Undefined | Own 'v | Inherited

definition object_prototype_names :: "string list" where
  "object_prototype_names =
     [''constructor'', ''hasOwnProperty'', ''isPrototypeOf'', ''propertyIsEnumerable'',
      ''toLocaleString'', ''toString'', ''valueOf'', ''__proto__'',
      ''__defineGetter__'', ''__defineSetter__'', ''__lookupGetter__'', ''__lookupSetter__'']"

definition js_get :: "(string \<times> 'v) list \<Rightarrow> string \<Rightarrow> 'v js_property" where
  "js_get obj k =
     (case map_of obj k of
        Some v \<Rightarrow> Own v
      | None \<Rightarrow> if k \<in> set object_prototype_names then Inherited else Undefined)"

text \<open>\<^verbatim>\<open>x || 0\<close> on a number that may be undefined.\<close>

definition js_or_zero :: "'a::zero option \<Rightarrow> 'a" where
  "js_or_zero v = (case v of None \<Rightarrow> 0 | Some x \<Rightarrow> x)"

text \<open>
  \<^verbatim>\<open>str.split()\<close> of Python cuts at runs of whitespace and drops empty pieces;
  \<^verbatim>\<open>s.split()[-1]\<close> raises IndexError when there is no piece. Below 256 the whitespace
  characters of a Python string are the space, the controls 9 to 13 and 28 to 31, the next
  line control U+0085 and the no-break space U+00A0.
\<close>

definition is_space :: "char \<Rightarrow> bool" where
  "is_space c = (c \<in> set [CHR '' '', CHR 0x09, CHR 0x0A, CHR 0x0B, CHR 0x0C, CHR 0x0D,
                             CHR 0x1C, CHR 0x1D, CHR 0x1E, CHR 0x1F, CHR 0x85, CHR 0xA0])"

fun split_ws :: "string \<Rightarrow> string \<Rightarrow> string list" where
  "split_ws cur [] = (if cur = [] then [] else [cur])"
| "split_ws cur (c # cs) =
     (if is_space c then (if cur = [] then split_ws [] cs else cur # split_ws [] cs)
      else split_ws (cur @ [c]) cs)"

definition py_split :: "string \<Rightarrow> string list" where
  "py_split s = split_ws [] s"

definition last_token :: "string \<Rightarrow> string result" where
  "last_token s = (case rev (py_split s) of [] \<Rightarrow> Inl IndexError | t # _ \<Rightarrow> Inr t)"

text \<open>
  \<^verbatim>\<open>s.split(' ').pop()\<close> of JavaScript cuts at every single space and keeps empty pieces,
  so the array is never empty; the function returns its last piece.
\<close>

fun last_segment :: "string \<Rightarrow> string \<Rightarrow> string" where
  "last_segment cur [] = cur"
| "last_segment cur (c # cs) =
     (if c = CHR '' '' then last_segment [] cs else last_segment (cur @ [c]) cs)"

text \<open>
  \<^verbatim>\<open>list.sort(key=..., reverse=True)\<close> and \<^verbatim>\<open>Array.prototype.sort\<close> with the comparator
  \<^verbatim>\<open>(a, b) => b.score - a.score\<close> are both documented as stable. On keys that are totally
  ordered a stable sort has one possible result, computed here by insertion from the right.
\<close>

fun insert_desc :: "('a \<Rightarrow> real) \<Rightarrow> 'a \<Rightarrow> 'a list \<Rightarrow> 'a list" where
  "insert_desc k x [] = [x]"
| "insert_desc k x (y # ys) = (if k x < k y then y # insert_desc k x ys else x # y # ys)"

fun sort_desc :: "('a \<Rightarrow> real) \<Rightarrow> 'a list \<Rightarrow> 'a list" where
  "sort_desc k [] = []"
| "sort_desc k (x # xs) = insert_desc k x (sort_desc k xs)"

section \<open>Numbers\<close>

text \<open>
  A number of the JSON document as Python holds it: a literal without fraction or exponent
  is an integer of any size, any other literal a float. A float is a finite double.
\<close>

datatype number = Whole int | Fractional real








text \<open>
  A running total of Python's \<^verbatim>\<open>sum\<close>. Integers are added exactly. An addition with a float
  operand is a float addition, which rounds; on which of them \<^verbatim>\<open>sum\<close> rounds, and how,
  differs between versions of Python (from 3.12 on it compensates the rounding errors). The
  model follows the float additions as far as they are exact: \<open>Exact\<close> holds the total as long
  as every operand and every sum was a double, \<open>Rounded\<close> stands for a float that the model
  does not determine.
\<close>

datatype total = Exact number | Rounded









section \<open>Data model\<close>

record position_assignment =
  position :: "string option"
  name :: "string option"
  fit_score :: "real option"

record recruitment_need =
  need_position :: "string option"
  gap :: "real option"
  urgency :: "string option"
  timeline :: "string option"
  cost_low :: "number option"
  cost_high :: "number option"

record summary_counts =
  key_enablers :: "int option"
  good_fit :: "int option"
  system_dependent :: "int option"
  marginalised :: "int option"
  squad_total :: "int option"
  average_fit :: "real option"

record analysis_result =
  manager :: "string option"
  primary_formation :: "string option"
  matches_analysed :: "int option"
  dna_dimensions :: "(string \<times> real) list option"
  squad_summary :: "summary_counts option"
  ideal_xi :: "position_assignment list option"
  recruitment :: "recruitment_need list option"
  other_keys :: "string list"

text \<open>
  The document is a JSON object. Its first seven fields are the keys that the code reads,
  \<open>other_keys\<close> lists every other key of the object. \<^verbatim>\<open>not self.results\<close> holds for \<^verbatim>\<open>None\<close>
  and for the object without any key, \<^verbatim>\<open>{}\<close>.
\<close>

definition is_empty_dict :: "analysis_result \<Rightarrow> bool" where
  "is_empty_dict r =
     (manager r = None \<and> primary_formation r = None \<and> matches_analysed r = None \<and>
      dna_dimensions r = None \<and> squad_summary r = None \<and> ideal_xi r = None \<and>
      recruitment r = None \<and> other_keys r = [])"

text \<open>
  A row of \<^verbatim>\<open>csv.DictReader\<close> maps the column names of the header to cells. A cell is the
  text of the field, or \<^verbatim>\<open>None\<close> where the line is shorter than the header. A column that
  the header does not have is an absent key.
\<close>

type_synonym cell = "string option"

type_synonym row = "string \<rightharpoonup> cell"

section \<open>Colour tables\<close>

definition COLORS :: "(string \<times> string) list" where
  "COLORS =
     [(''Key Enabler'', ''#22c55e''),
      (''Good Fit'', ''#eab308''),
      (''System Dependent'', ''#f97316''),
      (''Potentially Marginalised'', ''#ef4444''),
      (''primary'', ''#3b82f6''),
      (''secondary'', ''#64748b'')]"

text \<open>The local table \<^verbatim>\<open>colors\<close> of \<^verbatim>\<open>plot_recruitment\<close>.\<close>

definition urgency_colors :: "(string \<times> string) list" where
  "urgency_colors =
     [(''Critical'', ''#ef4444''), (''High'', ''#f97316''), (''Medium'', ''#eab308'')]"

text \<open>\<^verbatim>\<open>self.COLORS.get(c, self.COLORS["secondary"])\<close> in \<^verbatim>\<open>plot_squad_fit\<close>.\<close>

definition classification_color :: "string \<Rightarrow> string result" where
  "classification_color c =
     rbind (dict_item COLORS ''secondary'') (\<lambda>fallback. Inr (dict_get COLORS c fallback))"

text \<open>\<^verbatim>\<open>colors.get(u, "#64748b")\<close> in \<^verbatim>\<open>plot_recruitment\<close>.\<close>

definition urgency_color :: "string \<Rightarrow> string" where
  "urgency_color u = dict_get urgency_colors u ''#64748b''"

text \<open>The tables of the dashboard script and its lookups \<^verbatim>\<open>classificationColors[c]\<close>,
  \<^verbatim>\<open>urgencyColors[u]\<close>, which have no default.\<close>

definition classificationColors :: "(string \<times> string) list" where
  "classificationColors =
     [(''Key Enabler'', ''#22c55e''),
      (''Good Fit'', ''#eab308''),
      (''System Dependent'', ''#f97316''),
      (''Potentially Marginalised'', ''#ef4444'')]"

definition urgencyColors :: "(string \<times> string) list" where
  "urgencyColors =
     [(''Critical'', ''#ef4444''), (''High'', ''#f97316''), (''Medium'', ''#eab308'')]"

section \<open>Static charts\<close>

subsection \<open>DNA radar\<close>

text \<open>
  What \<^verbatim>\<open>plot_dna_radar\<close> hands to the polar axes: the closed outline (\<^verbatim>\<open>ax.fill\<close>,
  \<^verbatim>\<open>ax.plot\<close>), the vertices (\<^verbatim>\<open>ax.scatter\<close>), the ticks with their labels and the
  radial limits. Angles are in radians, measured by the polar axes from their zero direction.
\<close>

record radar_png =
  line_angles :: "real list"
  line_values :: "real list"
  scatter_angles :: "real list"
  scatter_values :: "real list"
  xticks :: "real list"
  xticklabels :: "string list"
  ylim :: "real \<times> real"
  radar_title :: string

text \<open>\<^verbatim>\<open>np.linspace(start, stop, num, endpoint=False)\<close>: \<open>num\<close> samples, step
  \<open>(stop - start) / num\<close>; empty for \<open>num = 0\<close>.\<close>

definition linspace :: "real \<Rightarrow> real \<Rightarrow> nat \<Rightarrow> real list" where
  "linspace start stop num =
     map (\<lambda>i. start + real i * ((stop - start) / real num)) [0..<num]"

definition dna_radar :: "(string \<times> real) list \<Rightarrow> string \<Rightarrow> radar_png" where
  "dna_radar dimensions mgr =
     (let labels = map fst dimensions;
          values = map snd dimensions;
          values = values @ take 1 values;
          angles = linspace 0 (2 * pi) (length labels);
          angles = angles @ take 1 angles
      in \<lparr> line_angles = angles, line_values = values,
           scatter_angles = butlast angles, scatter_values = butlast values,
           xticks = butlast angles, xticklabels = labels,
           ylim = (0, 100), radar_title = ''Manager DNA: '' @ mgr \<rparr>)"

definition degrees :: "real \<Rightarrow> real" where
  "degrees radians = radians * 180 / pi"

subsection \<open>Formation usage\<close>


subsection \<open>Squad fit ranking\<close>

record squad_fit_png =
  bar_names :: "string list"
  bar_scores :: "real list"
  bar_colors :: "string list"
  fit_legend :: "(string \<times> string) list"

text \<open>\<open>pf\<close> is Python's \<^verbatim>\<open>float\<close> on a text: \<open>None\<close> where it raises ValueError. On the cell
  \<^verbatim>\<open>None\<close> of a short line \<^verbatim>\<open>float\<close> raises TypeError.\<close>

definition to_float :: "(string \<Rightarrow> real option) \<Rightarrow> cell \<Rightarrow> real result" where
  "to_float pf c =
     (case c of
        None \<Rightarrow> Inl TypeError
      | Some s \<Rightarrow> (case pf s of None \<Rightarrow> Inl ValueError | Some v \<Rightarrow> Inr v))"

text \<open>The sort key \<^verbatim>\<open>float(x.get("Fit Score", 0))\<close>.\<close>

definition fit_key :: "(string \<Rightarrow> real option) \<Rightarrow> row \<Rightarrow> real result" where
  "fit_key pf x = (case x ''Fit Score'' of None \<Rightarrow> Inr 0 | Some c \<Rightarrow> to_float pf c)"

text \<open>\<^verbatim>\<open>players.sort(key=..., reverse=True)\<close>: every key is computed first, then the rows
  are sorted on the keys.\<close>

definition sort_players :: "(string \<Rightarrow> real option) \<Rightarrow> row list \<Rightarrow> row list result" where
  "sort_players pf players =
     rbind (collect (fit_key pf) players)
       (\<lambda>keys. Inr (map snd (sort_desc fst (zip keys players))))"

definition classification_labels :: "string list" where
  "classification_labels =
     [''Key Enabler'', ''Good Fit'', ''System Dependent'', ''Potentially Marginalised'']"

text \<open>\<^verbatim>\<open>self.COLORS.get(c, self.COLORS["secondary"])\<close> on a cell: \<^verbatim>\<open>None\<close> is no key of the
  table.\<close>

definition cell_color :: "cell \<Rightarrow> string result" where
  "cell_color c =
     (case c of
        None \<Rightarrow> dict_item COLORS ''secondary''
      | Some label \<Rightarrow> classification_color label)"

text \<open>\<^verbatim>\<open>ax.barh(names, scores, color=colors)\<close> takes the names as the categories of the axis;
  matplotlib raises TypeError for a category that is no string.\<close>

definition bar_label :: "cell \<Rightarrow> string result" where
  "bar_label c = (case c of None \<Rightarrow> Inl TypeError | Some s \<Rightarrow> Inr s)"

text \<open>The chart of \<^verbatim>\<open>plot_squad_fit\<close>; \<open>None\<close> when there are no rows (nothing is drawn).\<close>

definition squad_fit_chart ::
  "(string \<Rightarrow> real option) \<Rightarrow> bool \<Rightarrow> row list \<Rightarrow> squad_fit_png option result" where
  "squad_fit_chart pf has_plt players =
     (if players = [] then Inr None
      else
        rbind (sort_players pf players) (\<lambda>players.
        if \<not> has_plt then Inl AttributeError
        else
        rbind (collect (\<lambda>p. item ''Name'' (p ''Name'')) players) (\<lambda>names.
        rbind (collect (\<lambda>p. rbind (item ''Fit Score'' (p ''Fit Score'')) (to_float pf)) players)
          (\<lambda>scores.
        rbind (collect (\<lambda>p. item ''Classification'' (p ''Classification'')) players)
          (\<lambda>classifications.
        rbind (collect cell_color classifications) (\<lambda>colors.
        rbind (collect bar_label names) (\<lambda>bars.
        rbind (collect (\<lambda>c. rbind (dict_item COLORS c) (\<lambda>col. Inr (col, c)))
                 classification_labels) (\<lambda>handles.
        Inr (Some \<lparr> bar_names = bars, bar_scores = scores, bar_colors = colors,
                    fit_legend = handles \<rparr>)))))))))"

subsection \<open>Classification pie\<close>

text \<open>The filtered triples \<^verbatim>\<open>data\<close> of \<^verbatim>\<open>plot_classification_pie\<close>.\<close>

definition pie_data :: "summary_counts \<Rightarrow> (string \<times> int \<times> string) list result" where
  "pie_data summary =
     (let labels = classification_labels;
          sizes = [get (key_enablers summary) 0, get (good_fit summary) 0,
                   get (system_dependent summary) 0, get (marginalised summary) 0]
      in rbind (collect (dict_item COLORS) labels) (\<lambda>colors.
         Inr (filter (\<lambda>(l, s, c). s > 0) (zip labels (zip sizes colors)))))"

text \<open>
  \<^verbatim>\<open>ax.pie(sizes, ..., autopct="%1.0f%%")\<close>: matplotlib draws wedge \<open>i\<close> with the fraction
  \<open>sizes[i] / sum(sizes)\<close> of the disc and labels it with \<open>100\<close> times that fraction.
\<close>

definition autopct :: "int list \<Rightarrow> real list" where
  "autopct sizes = map (\<lambda>s. 100 * (real_of_int s / real_of_int (sum_list sizes))) sizes"

record pie_png =
  wedge_labels :: "string list"
  wedge_sizes :: "int list"
  wedge_colors :: "string list"
  wedge_percentages :: "real list"

definition pie_of :: "(string \<times> int \<times> string) list \<Rightarrow> pie_png" where
  "pie_of data =
     (let labels = map fst data; sizes = map (fst \<circ> snd) data; colors = map (snd \<circ> snd) data
      in \<lparr> wedge_labels = labels, wedge_sizes = sizes, wedge_colors = colors,
           wedge_percentages = autopct sizes \<rparr>)"

text \<open>The chart of \<^verbatim>\<open>plot_classification_pie\<close>; \<open>None\<close> when every count is filtered out.\<close>

definition classification_pie :: "bool \<Rightarrow> summary_counts \<Rightarrow> pie_png option result" where
  "classification_pie has_plt summary =
     rbind (pie_data summary) (\<lambda>data.
       if data = [] then Inr None
       else if \<not> has_plt then Inl AttributeError
       else Inr (Some (pie_of data)))"

subsection \<open>Ideal XI pitch\<close>

definition positions :: "(string \<times> (int \<times> int)) list" where
  "positions =
     [(''GK'', (50, 92)), (''LB'', (15, 70)), (''CB1'', (35, 75)), (''CB2'', (65, 75)),
      (''RB'', (85, 70)), (''DM'', (50, 55)), (''CM'', (30, 45)), (''AM'', (70, 45)),
      (''LW'', (15, 25)), (''CF'', (50, 15)), (''RW'', (85, 25))]"

record marker =
  circle_xy :: "int \<times> int"
  circle_color :: string
  score_text :: real
  name_text :: string
  name_xy :: "int \<times> int"

text \<open>The loop \<^verbatim>\<open>for player in ideal_xi\<close> of \<^verbatim>\<open>plot_ideal_xi\<close>.\<close>

fun draw_players :: "position_assignment list \<Rightarrow> marker list result" where
  "draw_players [] = Inr []"
| "draw_players (player # rest) =
     (let pos_key = get (position player) '''' in
      case map_of positions pos_key of
        None \<Rightarrow> draw_players rest
      | Some (x, y) \<Rightarrow>
          (let score = get (fit_score player) 0 in
           rbind (if score \<ge> 75 then dict_item COLORS ''Key Enabler''
                  else if score \<ge> 60 then dict_item COLORS ''Good Fit''
                  else dict_item COLORS ''System Dependent'') (\<lambda>color.
           rbind (last_token (get (name player) '''')) (\<lambda>surname.
           rbind (draw_players rest) (\<lambda>markers.
           Inr (\<lparr> circle_xy = (x, y), circle_color = color, score_text = score,
                   name_text = surname, name_xy = (x, y - 8) \<rparr> # markers))))))"


subsection \<open>Recruitment priorities\<close>

record recruitment_png =
  need_labels :: "string list"
  need_gaps :: "real list"
  need_colors :: "string list"
  cost_labels :: "(number \<times> number) list"
  xlim_max :: real
  urgency_legend :: "(string \<times> string) list"


subsection \<open>Executive summary\<close>




record summary_png =
  dna_bars :: "(string \<times> real) list"
  summary_pie :: "pie_png option"
  metrics_text :: "int \<times> int \<times> real \<times> int"
  top_fits :: "(string \<times> real) list"
  top_needs :: "(string \<times> real) list"
  investment_text :: "total \<times> total \<times> nat"

definition no_summary :: summary_counts where
  "no_summary = \<lparr> key_enablers = None, good_fit = None, system_dependent = None,
                  marginalised = None, squad_total = None, average_fit = None \<rparr>"


section \<open>The dashboard document and its script\<close>

text \<open>
  \<^verbatim>\<open>_generate_dashboard_html\<close> embeds the data as JavaScript literals in a fixed template. The
  document is modelled by the embedded data; the components of the template are functions of
  that data. \<^verbatim>\<open>Object.entries\<close> lists the dimensions in document order (for names that are
  not array indices), so the dimensions stay an ordered list.
\<close>

text \<open>An element of \<^verbatim>\<open>squadFit\<close>. The three texts are cells: \<^verbatim>\<open>p.get(...)\<close> hands the
  \<^verbatim>\<open>None\<close> of a short line on, and it is embedded as \<^verbatim>\<open>null\<close>.\<close>

record squad_fit_entry =
  entry_name :: cell
  entry_position :: cell
  age :: int
  score :: real
  classification :: cell

record dashboard_html =
  managerName :: string
  primaryFormation :: string
  matchesAnalysed :: int
  dnaDimensions :: "(string \<times> real) list"
  squadSummary :: summary_counts
  squadFit :: "squad_fit_entry list"
  idealXI :: "position_assignment list"
  recruitment_list :: "recruitment_need list"

subsection \<open>DNARadar\<close>

definition cx :: real where "cx = 150"
definition cy :: real where "cy = 150"
definition radius :: real where "radius = 100"

text \<open>\<open>cnt\<close> is the script's \<^verbatim>\<open>count\<close>. For \<open>cnt = 0\<close> JavaScript's \<^verbatim>\<open>angleStep\<close> is \<^verbatim>\<open>Infinity\<close> and is never used; the
  division of HOL gives \<open>0\<close> there.\<close>

definition angleStep :: "nat \<Rightarrow> real" where
  "angleStep cnt = (2 * pi) / real cnt"

definition vertex_angle :: "nat \<Rightarrow> nat \<Rightarrow> real" where
  "vertex_angle cnt i = real i * angleStep cnt - pi / 2"

definition vertex_r :: "real \<Rightarrow> real" where
  "vertex_r v = (v / 100) * radius"

record radar_point =
  point_x :: real
  point_y :: real
  labelX :: real
  labelY :: real
  point_label :: string
  point_value :: real

definition radar_point_of :: "nat \<Rightarrow> nat \<Rightarrow> string \<times> real \<Rightarrow> radar_point" where
  "radar_point_of cnt i d =
     (let angle = vertex_angle cnt i; r = vertex_r (snd d)
      in \<lparr> point_x = cx + r * cos angle, point_y = cy + r * sin angle,
           labelX = cx + (radius + 25) * cos angle, labelY = cy + (radius + 25) * sin angle,
           point_label = fst d, point_value = snd d \<rparr>)"

datatype path_command = MoveTo real real | LineTo real real | ClosePath

record radar_svg =
  gridCircles :: "real list"
  gridLines :: "(real \<times> real) list"
  pathD :: "path_command list"
  points :: "radar_point list"

definition DNARadar :: "(string \<times> real) list \<Rightarrow> radar_svg" where
  "DNARadar dims =
     (let cnt = length dims;
          points = map (\<lambda>(i, d). radar_point_of cnt i d) (enumerate 0 dims);
          pathD = map (\<lambda>(i, p). if i = 0 then MoveTo (point_x p) (point_y p)
                                 else LineTo (point_x p) (point_y p)) (enumerate 0 points)
                  @ [ClosePath];
          gridCircles = map (\<lambda>pct. radius * pct / 100) [25, 50, 75, 100];
          gridLines = map (\<lambda>(i, d). let angle = vertex_angle cnt i
                                      in (cx + radius * cos angle, cy + radius * sin angle))
                          (enumerate 0 dims)
      in \<lparr> gridCircles = gridCircles, gridLines = gridLines, pathD = pathD,
           points = points \<rparr>)"

subsection \<open>IdealXIPitch\<close>

definition pitch_positions :: "(string \<times> (int \<times> int)) list" where
  "pitch_positions =
     [(''GK'', (50, 90)), (''LB'', (15, 70)), (''CB1'', (35, 75)), (''CB2'', (65, 75)),
      (''RB'', (85, 70)), (''DM'', (50, 55)), (''CM'', (30, 45)), (''AM'', (70, 45)),
      (''LW'', (15, 25)), (''CF'', (50, 15)), (''RW'', (85, 25))]"

text \<open>A rendered player; \<open>style_left\<close> and \<open>style_top\<close> are \<open>None\<close> when \<^verbatim>\<open>pos.x\<close> and
  \<^verbatim>\<open>pos.y\<close> are undefined.\<close>

record pitch_player =
  style_left :: "int option"
  style_top :: "int option"
  bgColor :: string
  score_label :: real
  surname :: string

text \<open>The property key of \<^verbatim>\<open>positions[player.position]\<close>: an absent position reads the key
  \<^verbatim>\<open>"undefined"\<close>.\<close>

definition property_key :: "string option \<Rightarrow> string" where
  "property_key k = (case k of None \<Rightarrow> ''undefined'' | Some s \<Rightarrow> s)"

definition render_player :: "position_assignment \<Rightarrow> pitch_player option" where
  "render_player player =
     (let pos = js_get pitch_positions (property_key (position player)) in
      if pos = Undefined then None
      else
        (let score = js_or_zero (fit_score player);
             bgColor = (if score \<ge> 75 then ''bg-green-500''
                        else if score \<ge> 60 then ''bg-yellow-500'' else ''bg-orange-500'');
             nm = (case name player of
                     None \<Rightarrow> ''Unknown''
                   | Some n \<Rightarrow> (let l = last_segment [] n in if l = [] then ''Unknown'' else l))
         in Some \<lparr> style_left = (case pos of Own (x, y) \<Rightarrow> Some x | _ \<Rightarrow> None),
                   style_top = (case pos of Own (x, y) \<Rightarrow> Some y | _ \<Rightarrow> None),
                   bgColor = bgColor, score_label = score, surname = nm \<rparr>))"

text \<open>\<^verbatim>\<open>idealXI.map(...)\<close>: one entry per player, \<open>None\<close> for \<^verbatim>\<open>null\<close> (nothing rendered).\<close>

definition IdealXIPitch :: "position_assignment list \<Rightarrow> pitch_player option list" where
  "IdealXIPitch xi = map render_player xi"

subsection \<open>SquadFitChart\<close>

record fit_bar =
  bar_entry :: squad_fit_entry
  width_percent :: real
  backgroundColor :: "string js_property"

text \<open>The property key of \<^verbatim>\<open>classificationColors[player.classification]\<close>: \<^verbatim>\<open>null\<close> reads
  the key \<^verbatim>\<open>"null"\<close>.\<close>

definition null_key :: "cell \<Rightarrow> string" where
  "null_key c = (case c of None \<Rightarrow> ''null'' | Some s \<Rightarrow> s)"

definition SquadFitChart :: "squad_fit_entry list \<Rightarrow> fit_bar list" where
  "SquadFitChart sf =
     (let sorted = take 15 (sort_desc score sf);
          maxScore = fold max (map score sorted) 100
      in map (\<lambda>player. \<lparr> bar_entry = player,
                          width_percent = (score player / maxScore) * 100,
                          backgroundColor =
                            js_get classificationColors (null_key (classification player)) \<rparr>)
             sorted)"

subsection \<open>Dashboard totals\<close>




subsection \<open>The sums of the costs\<close>




section \<open>The visualizer object\<close>

datatype message =
    LoadedResults string
  | MatplotlibRequired
  | GeneratingVisualizations
  | Saved string
  | NoSquadFitData
  | NoRecruitmentPriorities
  | AllSaved
  | GeneratingDashboard
  | DashboardSaved string

datatype artifact =
    RadarPng radar_png
  | FormationPng "(string \<times> real) list"
  | SquadFitPng squad_fit_png
  | PiePng pie_png
  | PitchPng "marker list"
  | RecruitmentPng recruitment_png
  | SummaryPng summary_png
  | DashboardHtml dashboard_html

text \<open>
  The object \<^verbatim>\<open>self\<close>, with the files it has written below \<^verbatim>\<open>output_dir\<close> and the lines it
  has printed. \<open>plt\<close> is false when matplotlib could not be imported.
\<close>

record visualizer =
  results :: "analysis_result option"
  squad_fit_data :: "row list option"
  plt :: bool
  files :: "(string \<times> artifact) list"
  printed :: "message list"

text \<open>
  What the code reads from outside: the two input files of \<^verbatim>\<open>output_dir\<close> (\<open>None\<close>: the
  file does not exist; the JSON file holds an object or is not JSON) and Python's \<^verbatim>\<open>float\<close>
  and \<^verbatim>\<open>int\<close> on a cell text (\<open>None\<close>: ValueError).
\<close>

datatype json_file = NotJson | Document analysis_result

record environment =
  results_file :: "json_file option"
  squad_file :: "row list option"
  py_float :: "string \<Rightarrow> real option"
  py_int :: "string \<Rightarrow> int option"

definition new_visualizer :: "bool \<Rightarrow> visualizer" where
  "new_visualizer has_matplotlib =
     \<lparr> results = None, squad_fit_data = None, plt = has_matplotlib, files = [], printed = [] \<rparr>"

definition print :: "message \<Rightarrow> visualizer \<Rightarrow> visualizer" where
  "print m self = self\<lparr> printed := printed self @ [m] \<rparr>"

definition load_results :: "environment \<Rightarrow> visualizer \<Rightarrow> unit result \<times> visualizer" where
  "load_results env self =
     (case results_file env of
        None \<Rightarrow> (Inl FileNotFoundError, self)
      | Some NotJson \<Rightarrow> (Inl JSONDecodeError, self)
      | Some (Document doc) \<Rightarrow>
          (let self = print (LoadedResults (get (manager doc) ''Unknown''))
                        (self\<lparr> results := Some doc \<rparr>);
               self = (case squad_file env of
                         None \<Rightarrow> self
                       | Some rows \<Rightarrow> self\<lparr> squad_fit_data := Some rows \<rparr>)
           in (Inr (), self)))"

subsection \<open>The chart routines\<close>

definition savefig :: "string \<Rightarrow> artifact \<Rightarrow> visualizer \<Rightarrow> unit result \<times> visualizer" where
  "savefig fname art self =
     (Inr (), print (Saved fname) (self\<lparr> files := files self @ [(fname, art)] \<rparr>))"

definition plot_dna_radar :: "visualizer \<Rightarrow> unit result \<times> visualizer" where
  "plot_dna_radar self =
     (case results self of
        None \<Rightarrow> (Inl AttributeError, self)
      | Some res \<Rightarrow>
          if \<not> plt self then (Inl AttributeError, self)
          else savefig ''01_manager_dna_radar.png''
                 (RadarPng (dna_radar (get (dna_dimensions res) [])
                                      (get (manager res) ''Unknown''))) self)"


definition plot_squad_fit :: "environment \<Rightarrow> visualizer \<Rightarrow> unit result \<times> visualizer" where
  "plot_squad_fit env self =
     (let players = (case squad_file env of None \<Rightarrow> [] | Some rows \<Rightarrow> rows) in
      case squad_fit_chart (py_float env) (plt self) players of
        Inl e \<Rightarrow> (Inl e, self)
      | Inr None \<Rightarrow> (Inr (), print NoSquadFitData self)
      | Inr (Some chart) \<Rightarrow> savefig ''03_squad_fit_scores.png'' (SquadFitPng chart) self)"





subsection \<open>plot_all\<close>

text \<open>Statements in sequence: an exception ends the sequence with the state reached.\<close>

fun run :: "(visualizer \<Rightarrow> unit result \<times> visualizer) list \<Rightarrow> visualizer
              \<Rightarrow> unit result \<times> visualizer" where
  "run [] self = (Inr (), self)"
| "run (routine # rest) self =
     (case routine self of
        (Inl e, self') \<Rightarrow> (Inl e, self')
      | (Inr u, self') \<Rightarrow> run rest self')"



subsection \<open>generate_dashboard\<close>

text \<open>Python's \<^verbatim>\<open>int\<close> on a cell: TypeError on \<^verbatim>\<open>None\<close>, ValueError on a text that is no
  integer literal (\<open>parse\<close> gives \<open>None\<close>).\<close>

definition to_int :: "(string \<Rightarrow> int option) \<Rightarrow> cell \<Rightarrow> int result" where
  "to_int parse c =
     (case c of
        None \<Rightarrow> Inl TypeError
      | Some s \<Rightarrow> (case parse s of None \<Rightarrow> Inl ValueError | Some v \<Rightarrow> Inr v))"

text \<open>One element of \<^verbatim>\<open>squad_fit\<close>: the dictionary built from a row \<open>p\<close>.\<close>

definition to_entry :: "environment \<Rightarrow> row \<Rightarrow> squad_fit_entry result" where
  "to_entry env p =
     rbind (case p ''Age'' of None \<Rightarrow> Inr 25 | Some c \<Rightarrow> to_int (py_int env) c) (\<lambda>a.
     rbind (fit_key (py_float env) p) (\<lambda>sc.
     Inr \<lparr> entry_name = get (p ''Name'') (Some ''Unknown''),
           entry_position = get (p ''Position'') (Some ''Unknown''),
           age = a, score = sc,
           classification = get (p ''Classification'') (Some ''Unknown'') \<rparr>))"

definition generate_dashboard ::
  "environment \<Rightarrow> string \<Rightarrow> visualizer \<Rightarrow> string result \<times> visualizer" where
  "generate_dashboard env filename self =
     (case results self of
        None \<Rightarrow> (Inl ValueError, self)
      | Some res \<Rightarrow>
          if is_empty_dict res then (Inl ValueError, self)
          else
            (let self = print GeneratingDashboard self in
             case collect (to_entry env) (get (squad_fit_data self) []) of
               Inl e \<Rightarrow> (Inl e, self)
             | Inr squad_fit \<Rightarrow>
                 (let html = \<lparr> managerName = get (manager res) ''Unknown'',
                               primaryFormation = get (primary_formation res) ''4-3-3'',
                               matchesAnalysed = get (matches_analysed res) 0,
                               dnaDimensions = get (dna_dimensions res) [],
                               squadSummary = get (squad_summary res) no_summary,
                               squadFit = squad_fit,
                               idealXI = get (ideal_xi res) [],
                               recruitment_list = get (recruitment res) [] \<rparr>
                  in (Inr filename,
                      print (DashboardSaved filename)
                        (self\<lparr> files := files self @ [(filename, DashboardHtml html)] \<rparr>)))))"

section \<open>Example inputs\<close>


definition example_needs :: "recruitment_need list" where
  "example_needs =
     [\<lparr> need_position = Some ''LB'', gap = Some 12, urgency = Some ''Critical'',
        timeline = Some ''January'', cost_low = Some (Whole 10), cost_high = Some (Whole 20) \<rparr>,
      \<lparr> need_position = Some ''CM'', gap = Some 4, urgency = Some ''Low'',
        timeline = Some ''Summer'', cost_low = Some (Whole 5), cost_high = Some (Whole 8) \<rparr>]"

definition example_summary :: summary_counts where
  "example_summary =
     \<lparr> key_enablers = Some 3, good_fit = Some 0, system_dependent = Some 1,
       marginalised = None, squad_total = Some 4, average_fit = Some 70 \<rparr>"

definition example_xi :: "position_assignment list" where
  "example_xi =
     [\<lparr> position = Some ''GK'', name = Some ''Ann Lee'', fit_score = Some 80 \<rparr>,
      \<lparr> position = Some ''XX'', name = Some ''Bo Ray'', fit_score = Some 65 \<rparr>,
      \<lparr> position = Some ''CF'', name = Some ''Cy Dow'', fit_score = Some 50 \<rparr>]"

definition example_dims :: "(string \<times> real) list" where
  "example_dims = [(''A'', 100), (''B'', 0), (''C'', 50)]"

definition example_result :: analysis_result where
  "example_result =
     \<lparr> manager = Some ''Frank'', primary_formation = Some ''4-3-3'',
       matches_analysed = Some 38, dna_dimensions = Some example_dims,
       squad_summary = Some example_summary, ideal_xi = Some example_xi,
       recruitment = Some example_needs, other_keys = [] \<rparr>"

text \<open>Three rows of the squad table, two of them with the same score, and a \<^verbatim>\<open>float\<close> that
  reads their cells.\<close>

definition example_rows :: "row list" where
  "example_rows =
     [[''Name'' \<mapsto> Some ''Ann'', ''Fit Score'' \<mapsto> Some ''70'',
       ''Classification'' \<mapsto> Some ''Good Fit''],
      [''Name'' \<mapsto> Some ''Bo'', ''Fit Score'' \<mapsto> Some ''80'',
       ''Classification'' \<mapsto> Some ''Key Enabler''],
      [''Name'' \<mapsto> Some ''Cy'', ''Fit Score'' \<mapsto> Some ''70'',
       ''Classification'' \<mapsto> Some ''Rotation'']]"

definition example_float :: "string \<Rightarrow> real option" where
  "example_float s = (if s = ''80'' then Some 80 else if s = ''70'' then Some 70 else None)"

definition example_int :: "string \<Rightarrow> int option" where
  "example_int s = (if s = ''27'' then Some 27 else None)"

definition example_entries :: "squad_fit_entry list" where
  "example_entries =
     [\<lparr> entry_name = Some ''Ann'', entry_position = Some ''GK'', age = 25, score = 70,
        classification = Some ''Good Fit'' \<rparr>,
      \<lparr> entry_name = Some ''Bo'', entry_position = Some ''CF'', age = 25, score = 80,
        classification = Some ''Key Enabler'' \<rparr>,
      \<lparr> entry_name = Some ''Cy'', entry_position = Some ''LB'', age = 25, score = 70,
        classification = Some ''Rotation'' \<rparr>]"


definition no_dims_visualizer :: visualizer where
  "no_dims_visualizer =
     (new_visualizer True)\<lparr> results := Some (example_result\<lparr> dna_dimensions := Some [] \<rparr>) \<rparr>"

text \<open>Output directories: with both input files, without the squad table, without the
  results document, with the document \<^verbatim>\<open>{}\<close>, with the document
  \<^verbatim>\<open>{"club": "Tottenham"}\<close>, with a squad table whose only row has no \<^verbatim>\<open>Name\<close> column,
  with one whose only row has an age that is not an integer literal, and with one whose only
  line \<^verbatim>\<open>Ann,GK\<close> is shorter than the header \<^verbatim>\<open>Name,Position,Age,Fit Score\<close>.\<close>

definition example_env :: environment where
  "example_env =
     \<lparr> results_file = Some (Document example_result), squad_file = Some example_rows,
       py_float = example_float, py_int = example_int \<rparr>"

definition no_csv_env :: environment where
  "no_csv_env = example_env\<lparr> squad_file := None \<rparr>"

definition no_json_env :: environment where
  "no_json_env = example_env\<lparr> results_file := None \<rparr>"

definition empty_document :: analysis_result where
  "empty_document =
     \<lparr> manager = None, primary_formation = None, matches_analysed = None,
       dna_dimensions = None, squad_summary = None, ideal_xi = None, recruitment = None,
       other_keys = [] \<rparr>"

definition empty_json_env :: environment where
  "empty_json_env = example_env\<lparr> results_file := Some (Document empty_document) \<rparr>"


definition bad_age_env :: environment where
  "bad_age_env =
     example_env\<lparr> squad_file :=
       Some [[''Name'' \<mapsto> Some ''Ann'', ''Age'' \<mapsto> Some ''27.5'',
              ''Fit Score'' \<mapsto> Some ''70'']] \<rparr>"

definition club_document :: analysis_result where
  "club_document = empty_document\<lparr> other_keys := [''club''] \<rparr>"

definition club_env :: environment where
  "club_env = example_env\<lparr> results_file := Some (Document club_document) \<rparr>"

definition short_row_env :: environment where
  "short_row_env =
     example_env\<lparr> squad_file :=
       Some [[''Name'' \<mapsto> Some ''Ann'', ''Position'' \<mapsto> Some ''GK'',
              ''Age'' \<mapsto> None, ''Fit Score'' \<mapsto> None]] \<rparr>"




section \<open>Properties\<close>

subsection \<open>Shared facts\<close>

lemma rbind_Inr [simp]: "rbind (Inr x) f = f x"
  by (simp add: rbind_def)

lemma rbind_Inl [simp]: "rbind (Inl e) f = Inl e"
  by (simp add: rbind_def)

lemma rbind_eq_Inr: "rbind m f = Inr y \<longleftrightarrow> (\<exists>x. m = Inr x \<and> f x = Inr y)"
  by (cases m) simp_all

lemma collect_returns:
  assumes "\<forall>x \<in> set xs. \<exists>y. f x = Inr y"
  shows "\<exists>ys. collect f xs = Inr ys"
  using assms by (induction xs) auto

lemma collect_length: "collect f xs = Inr ys \<Longrightarrow> length ys = length xs"
  by (induction xs arbitrary: ys) (auto simp: rbind_eq_Inr)

lemma collect_map: "collect f xs = Inr ys \<Longrightarrow> map Inr ys = map f xs"
  by (induction xs arbitrary: ys) (auto simp: rbind_eq_Inr)

lemma collect_dict_item_labels:
  "collect (dict_item COLORS) classification_labels =
     Inr [''#22c55e'', ''#eab308'', ''#f97316'', ''#ef4444'']"
  by (simp add: classification_labels_def dict_item_def COLORS_def)

lemma secondary_color: "dict_item COLORS ''secondary'' = Inr ''#64748b''"
  by (simp add: dict_item_def COLORS_def)

lemma classification_color_eq:
  "classification_color c = Inr (dict_get COLORS c ''#64748b'')"
  by (simp add: classification_color_def secondary_color)

lemma collect_zip:
  assumes "collect f xs = Inr ys"
  shows "zip ys xs = map (\<lambda>x. (case f x of Inr v \<Rightarrow> v | Inl e \<Rightarrow> d, x)) xs"
  using assms by (induction xs arbitrary: ys) (auto simp: rbind_eq_Inr)

lemma collect_all:
  assumes "collect f xs = Inr ys" and "x \<in> set xs"
  shows "\<exists>y. f x = Inr y"
  using assms by (induction xs arbitrary: ys) (auto simp: rbind_eq_Inr)

lemma collect_item_map:
  assumes "collect (\<lambda>p. item key (g p)) xs = Inr ys"
  shows "map Some ys = map g xs"
  using assms
  by (induction xs arbitrary: ys) (auto simp: rbind_eq_Inr item_def split: option.splits)

lemma collect_nth:
  assumes "collect f xs = Inr ys" and "i < length xs"
  shows "f (xs ! i) = Inr (ys ! i)"
  using assms
proof (induction xs arbitrary: ys i)
  case Nil
  then show ?case by simp
next
  case (Cons x xs)
  then show ?case
    by (cases i) (auto simp: rbind_eq_Inr)
qed


subsection \<open>Colour lookup\<close>

text \<open>
  C6, as the code has it. In the static renderers the colour lookup never raises. The
  classification lookup of \<^verbatim>\<open>plot_squad_fit\<close> returns the slate colour \<^verbatim>\<open>#64748b\<close> for every
  label other than the four classification labels and \<^verbatim>\<open>primary\<close>, which is a key of
  \<^verbatim>\<open>COLORS\<close> too; the urgency lookup of \<^verbatim>\<open>plot_recruitment\<close> returns slate for every label
  other than Critical, High and Medium.
\<close>

theorem color_fallback:
  "(label \<notin> set classification_labels \<and> label \<noteq> ''primary''
      \<longrightarrow> classification_color label = Inr ''#64748b'') \<and>
   (\<exists>c. classification_color label = Inr c) \<and>
   (label \<notin> set [''Critical'', ''High'', ''Medium'']
      \<longrightarrow> urgency_color label = ''#64748b'')"
proof (intro conjI impI)
  assume "label \<notin> set classification_labels \<and> label \<noteq> ''primary''"
  then show "classification_color label = Inr ''#64748b''"
    unfolding classification_color_eq
    by (simp add: dict_get_def COLORS_def classification_labels_def)
next
  show "\<exists>c. classification_color label = Inr c"
    by (simp add: classification_color_eq)
next
  assume "label \<notin> set [''Critical'', ''High'', ''Medium'']"
  then show "urgency_color label = ''#64748b''"
    by (simp add: urgency_color_def dict_get_def urgency_colors_def)
qed

theorem color_fallback_witness:
  "''Unknown'' \<notin> set classification_labels \<and> ''Unknown'' \<noteq> ''primary'' \<and>
   ''Unknown'' \<notin> set [''Critical'', ''High'', ''Medium''] \<and>
   classification_color ''Unknown'' = Inr ''#64748b'' \<and>
   urgency_color ''Unknown'' = ''#64748b''"
  using color_fallback [of "''Unknown''"] by (simp add: classification_labels_def)

text \<open>
  C6 as stated fails: \<^verbatim>\<open>primary\<close> is outside the classification and urgency label sets and the
  classification lookup returns blue for it; and the lookups of the dashboard script give
  \<^verbatim>\<open>undefined\<close>, not slate, for the label \<^verbatim>\<open>Unknown\<close> that \<^verbatim>\<open>generate_dashboard\<close> itself
  fills in.
\<close>

theorem color_fallback_counterexample:
  "''primary'' \<notin> set classification_labels \<and>
   ''primary'' \<notin> set [''Critical'', ''High'', ''Medium''] \<and>
   classification_color ''primary'' = Inr ''#3b82f6'' \<and>
   classification_color ''primary'' \<noteq> Inr ''#64748b'' \<and>
   js_get classificationColors ''Unknown'' = Undefined \<and>
   js_get urgencyColors ''Unknown'' = Undefined"
  unfolding classification_color_eq
  by (simp add: classification_labels_def dict_get_def COLORS_def js_get_def
        classificationColors_def urgencyColors_def object_prototype_names_def)

subsection \<open>Total investment\<close>































subsection \<open>Classification pie\<close>

lemma pie_data_eq:
  "pie_data summary =
     Inr (filter (\<lambda>(l, s, c). s > 0)
           [(''Key Enabler'', get (key_enablers summary) 0, ''#22c55e''),
            (''Good Fit'', get (good_fit summary) 0, ''#eab308''),
            (''System Dependent'', get (system_dependent summary) 0, ''#f97316''),
            (''Potentially Marginalised'', get (marginalised summary) 0, ''#ef4444'')])"
  unfolding pie_data_def Let_def collect_dict_item_labels
  by (simp add: classification_labels_def)

lemma sum_list_scaled:
  "sum_list (map (\<lambda>s. c * (real_of_int s / t)) xs) = c * (real_of_int (sum_list xs) / t)"
  by (induction xs) (simp_all add: algebra_simps add_divide_distrib)

lemma sum_list_autopct:
  assumes "sum_list sizes \<noteq> 0"
  shows "sum_list (autopct sizes) = 100"
  unfolding autopct_def sum_list_scaled using assms by simp

lemma sum_list_pos:
  assumes "xs \<noteq> []" and "\<forall>x \<in> set xs. 0 < x"
  shows "0 < sum_list (xs :: int list)"
proof (cases xs)
  case Nil
  with assms show ?thesis by simp
next
  case (Cons y ys)
  have "0 \<le> sum_list ys"
    using assms(2) Cons by (intro sum_list_nonneg) (simp add: less_imp_le)
  moreover have "0 < y"
    using assms(2) Cons by simp
  ultimately show ?thesis
    using Cons by simp
qed

lemma pie_of_percentages:
  assumes "data \<noteq> []" and "\<forall>(l, s, c) \<in> set data. 0 < s"
  shows "sum_list (wedge_percentages (pie_of data)) = 100"
proof -
  have "0 < sum_list (map (fst \<circ> snd) data)"
    using assms by (intro sum_list_pos) auto
  then show ?thesis
    by (simp add: pie_of_def Let_def sum_list_autopct)
qed

text \<open>
  C5. With matplotlib present the pie routine never fails. It draws no chart when no count is
  positive; otherwise the chart has a wedge for exactly the classification labels whose count
  is greater than \<open>0\<close> (an absent count is \<open>0\<close>), each once, and the percentages of its
  wedges, before they are rounded for the labels, add up to \<open>100\<close>.
\<close>

theorem classification_pie_wedges:
  "\<exists>out. classification_pie True summary = Inr out \<and>
     (case out of
        None \<Rightarrow>
          get (key_enablers summary) 0 \<le> 0 \<and> get (good_fit summary) 0 \<le> 0 \<and>
          get (system_dependent summary) 0 \<le> 0 \<and> get (marginalised summary) 0 \<le> 0
      | Some pie \<Rightarrow>
          (''Key Enabler'' \<in> set (wedge_labels pie) \<longleftrightarrow> 0 < get (key_enablers summary) 0) \<and>
          (''Good Fit'' \<in> set (wedge_labels pie) \<longleftrightarrow> 0 < get (good_fit summary) 0) \<and>
          (''System Dependent'' \<in> set (wedge_labels pie)
             \<longleftrightarrow> 0 < get (system_dependent summary) 0) \<and>
          (''Potentially Marginalised'' \<in> set (wedge_labels pie)
             \<longleftrightarrow> 0 < get (marginalised summary) 0) \<and>
          set (wedge_labels pie) \<subseteq> set classification_labels \<and>
          distinct (wedge_labels pie) \<and>
          length (wedge_percentages pie) = length (wedge_labels pie) \<and>
          sum_list (wedge_percentages pie) = 100)"
proof -
  define a where "a = get (key_enablers summary) 0"
  define b where "b = get (good_fit summary) 0"
  define c where "c = get (system_dependent summary) 0"
  define d where "d = get (marginalised summary) 0"
  define data where "data = filter (\<lambda>(l, s, c). s > 0)
           [(''Key Enabler'', a, ''#22c55e''), (''Good Fit'', b, ''#eab308''),
            (''System Dependent'', c, ''#f97316''),
            (''Potentially Marginalised'', d, ''#ef4444'')]"
  have pd: "pie_data summary = Inr data"
    by (simp add: pie_data_eq data_def a_def b_def c_def d_def)
  have pos: "\<forall>(l, s, c) \<in> set data. 0 < s"
    by (auto simp: data_def)
  have labels: "map fst data =
      filter (\<lambda>l. (l = ''Key Enabler'' \<and> 0 < a) \<or> (l = ''Good Fit'' \<and> 0 < b) \<or>
                   (l = ''System Dependent'' \<and> 0 < c) \<or>
                   (l = ''Potentially Marginalised'' \<and> 0 < d)) classification_labels"
    by (simp add: data_def classification_labels_def)
  show ?thesis
  proof (cases "data = []")
    case True
    then have "a \<le> 0 \<and> b \<le> 0 \<and> c \<le> 0 \<and> d \<le> 0"
      by (auto simp: data_def split: if_splits)
    then show ?thesis
      using True by (simp add: classification_pie_def pd rbind_def a_def b_def c_def d_def)
  next
    case False
    have run: "classification_pie True summary = Inr (Some (pie_of data))"
      using False by (simp add: classification_pie_def pd rbind_def)
    have wl: "wedge_labels (pie_of data) = map fst data"
      by (simp add: pie_of_def Let_def)
    have "sum_list (wedge_percentages (pie_of data)) = 100"
      using False pos by (rule pie_of_percentages)
    moreover have "length (wedge_percentages (pie_of data)) = length (wedge_labels (pie_of data))"
      by (simp add: pie_of_def Let_def autopct_def)
    moreover have "distinct (wedge_labels (pie_of data))"
      unfolding wl labels by (simp add: classification_labels_def)
    moreover have "set (wedge_labels (pie_of data)) \<subseteq> set classification_labels"
      unfolding wl labels by auto
    moreover have "''Key Enabler'' \<in> set (wedge_labels (pie_of data)) \<longleftrightarrow> 0 < a"
      and "''Good Fit'' \<in> set (wedge_labels (pie_of data)) \<longleftrightarrow> 0 < b"
      and "''System Dependent'' \<in> set (wedge_labels (pie_of data)) \<longleftrightarrow> 0 < c"
      and "''Potentially Marginalised'' \<in> set (wedge_labels (pie_of data)) \<longleftrightarrow> 0 < d"
      unfolding wl labels by (simp_all add: classification_labels_def)
    ultimately show ?thesis
      unfolding run by (simp add: a_def b_def c_def d_def)
  qed
qed

theorem classification_pie_wedges_witness:
  "(case classification_pie True example_summary of
      Inr (Some pie) \<Rightarrow>
        wedge_labels pie = [''Key Enabler'', ''System Dependent''] \<and>
        wedge_percentages pie = [75, 25] \<and>
        ''Good Fit'' \<notin> set (wedge_labels pie) \<and>
        sum_list (wedge_percentages pie) = 100
    | _ \<Rightarrow> False)"
proof -
  have run: "classification_pie True example_summary =
     Inr (Some \<lparr> wedge_labels = [''Key Enabler'', ''System Dependent''], wedge_sizes = [3, 1],
                 wedge_colors = [''#22c55e'', ''#f97316''], wedge_percentages = [75, 25] \<rparr>)"
    by (simp add: classification_pie_def pie_data_eq example_summary_def get_def
          pie_of_def autopct_def)
  from classification_pie_wedges [of example_summary]
  show ?thesis
    unfolding run by (simp add: example_summary_def get_def)
qed

subsection \<open>Squad fit ranking\<close>

lemma mset_insert_desc: "mset (insert_desc k x ys) = add_mset x (mset ys)"
  by (induction ys) simp_all

lemma mset_sort_desc: "mset (sort_desc k xs) = mset xs"
  by (induction xs) (simp_all add: mset_insert_desc)

lemma set_insert_desc: "set (insert_desc k x ys) = insert x (set ys)"
  by (induction ys) auto

lemma sorted_insert_desc:
  assumes "sorted_wrt (\<lambda>a b. k a \<ge> k b) ys"
  shows "sorted_wrt (\<lambda>a b. k a \<ge> k b) (insert_desc k x ys)"
  using assms by (induction ys) (auto simp: set_insert_desc)

lemma sorted_sort_desc: "sorted_wrt (\<lambda>a b. k a \<ge> k b) (sort_desc k xs)"
  by (induction xs) (simp_all add: sorted_insert_desc)

lemma filter_insert_desc:
  "filter (\<lambda>y. k y = v) (insert_desc k x ys) =
     (if k x = v then x # filter (\<lambda>y. k y = v) ys else filter (\<lambda>y. k y = v) ys)"
  by (induction ys) auto

lemma sort_desc_stable:
  "filter (\<lambda>y. k y = v) (sort_desc k xs) = filter (\<lambda>y. k y = v) xs"
  by (induction xs) (simp_all add: filter_insert_desc)

lemma insert_desc_map:
  "insert_desc k (f x) (map f ys) = map f (insert_desc (\<lambda>a. k (f a)) x ys)"
  by (induction ys) simp_all

lemma sort_desc_map: "sort_desc k (map f xs) = map f (sort_desc (\<lambda>a. k (f a)) xs)"
  by (induction xs) (simp_all add: insert_desc_map)

lemma sort_players_eq:
  assumes "sort_players pf rows = Inr ps"
  shows "ps = sort_desc (\<lambda>r. case fit_key pf r of Inr v \<Rightarrow> v | Inl e \<Rightarrow> 0) rows"
proof -
  from assms obtain keys where k: "collect (fit_key pf) rows = Inr keys"
    and ps: "ps = map snd (sort_desc fst (zip keys rows))"
    by (auto simp: sort_players_def rbind_eq_Inr)
  show ?thesis
    unfolding ps collect_zip [OF k, of 0] sort_desc_map
    by (simp add: comp_def)
qed


lemma squad_fit_chart_sorted:
  assumes "squad_fit_chart pf has_plt rows = Inr (Some chart)"
  shows "\<exists>ps names. sort_players pf rows = Inr ps \<and>
           collect (\<lambda>p. item ''Name'' (p ''Name'')) ps = Inr names \<and>
           collect bar_label names = Inr (bar_names chart) \<and>
           collect (\<lambda>p. rbind (item ''Fit Score'' (p ''Fit Score'')) (to_float pf)) ps
             = Inr (bar_scores chart)"
  using assms unfolding squad_fit_chart_def
  by (auto simp: rbind_eq_Inr split: if_splits)

lemma collect_bar_label:
  assumes "collect bar_label names = Inr bars"
  shows "names = map Some bars"
  using assms
  by (induction names arbitrary: bars)
     (auto simp: rbind_eq_Inr bar_label_def split: option.splits)

lemma cell_color_returns: "\<exists>y. cell_color c = Inr y"
  by (cases c) (simp_all add: cell_color_def secondary_color classification_color_eq)

lemma score_cell:
  assumes "rbind (item ''Fit Score'' (p ''Fit Score'')) (to_float pf) = Inr v"
  shows "Option.bind (p ''Fit Score'') (\<lambda>c. Option.bind c pf) = Some v" and "fit_key pf p = Inr v"
  using assms
  by (auto simp: rbind_eq_Inr item_def to_float_def fit_key_def split: option.splits)

text \<open>
  C4. When \<^verbatim>\<open>plot_squad_fit\<close> draws its chart, the bars are the rows of the table in an order
  \<open>ps\<close> that is a rearrangement of the rows with the scores descending, and the rows of any
  one score stand in \<open>ps\<close> in their order in the table. The bars of the dashboard's
  \<^verbatim>\<open>SquadFitChart\<close> are the first fifteen of the same ordering of the embedded rows: scores
  descending, and the bars of any one score are a leading part of the rows of that score in
  their order in the table.
\<close>

theorem squad_fit_stable_sort:
  "(squad_fit_chart pf has_plt rows = Inr (Some chart) \<longrightarrow>
      (\<exists>ps. mset ps = mset rows \<and>
            map (\<lambda>n. Some (Some n)) (bar_names chart) = map (\<lambda>p. p ''Name'') ps \<and>
            map Some (bar_scores chart) = map (\<lambda>p. Option.bind (p ''Fit Score'') (\<lambda>c. Option.bind c pf)) ps \<and>
            sorted_wrt (\<ge>) (bar_scores chart) \<and>
            (\<forall>v. filter (\<lambda>p. Option.bind (p ''Fit Score'') (\<lambda>c. Option.bind c pf) = Some v) ps =
                 filter (\<lambda>p. Option.bind (p ''Fit Score'') (\<lambda>c. Option.bind c pf) = Some v) rows))) \<and>
   sorted_wrt (\<ge>) (map (score \<circ> bar_entry) (SquadFitChart sf)) \<and>
   mset (map bar_entry (SquadFitChart sf)) \<subseteq># mset sf \<and>
   length (SquadFitChart sf) = min 15 (length sf) \<and>
   (\<forall>v. prefix (filter (\<lambda>e. score e = v) (map bar_entry (SquadFitChart sf)))
               (filter (\<lambda>e. score e = v) sf))"
proof (intro conjI impI allI)
  assume run: "squad_fit_chart pf has_plt rows = Inr (Some chart)"
  define k where "k = (\<lambda>r. case fit_key pf r of Inr v \<Rightarrow> v | Inl e \<Rightarrow> (0::real))"
  from squad_fit_chart_sorted [OF run] obtain ps names where
    sp: "sort_players pf rows = Inr ps" and
    names: "collect (\<lambda>p. item ''Name'' (p ''Name'')) ps = Inr names" and
    bars: "collect bar_label names = Inr (bar_names chart)" and
    scores: "collect (\<lambda>p. rbind (item ''Fit Score'' (p ''Fit Score'')) (to_float pf)) ps
               = Inr (bar_scores chart)"
    by blast
  have ps: "ps = sort_desc k rows"
    unfolding k_def using sp by (rule sort_players_eq)
  have perm: "mset ps = mset rows"
    by (simp add: ps mset_sort_desc)
  have cell: "Option.bind (p ''Fit Score'') (\<lambda>c. Option.bind c pf) = Some (k p)" if "p \<in> set rows" for p
  proof -
    from that perm have pin: "p \<in> set ps"
      by (metis set_mset_mset)
    from collect_all [OF scores pin] obtain v where
      v: "rbind (item ''Fit Score'' (p ''Fit Score'')) (to_float pf) = Inr v"
      by auto
    from v score_cell [of p pf v] show ?thesis
      by (simp add: k_def)
  qed
  have cell': "Option.bind (p ''Fit Score'') (\<lambda>c. Option.bind c pf) = Some (k p)" if "p \<in> set ps" for p
    using that perm cell by (metis set_mset_mset)
  have n: "map (\<lambda>n. Some (Some n)) (bar_names chart) = map (\<lambda>p. p ''Name'') ps"
    using collect_item_map [OF names] collect_bar_label [OF bars] by (simp add: comp_def)
  have sc: "bar_scores chart = map k ps"
  proof (rule nth_equalityI)
    show "length (bar_scores chart) = length (map k ps)"
      using collect_length [OF scores] by simp
  next
    fix i assume "i < length (bar_scores chart)"
    then have i: "i < length ps"
      using collect_length [OF scores] by simp
    from collect_nth [OF scores i] score_cell [of "ps ! i" pf "bar_scores chart ! i"]
    have "fit_key pf (ps ! i) = Inr (bar_scores chart ! i)"
      by simp
    then show "bar_scores chart ! i = map k ps ! i"
      using i by (simp add: k_def)
  qed
  have "sorted_wrt (\<ge>) (map k ps)"
    unfolding ps sorted_wrt_map by (rule sorted_sort_desc)
  moreover have "map Some (bar_scores chart) = map (\<lambda>p. Option.bind (p ''Fit Score'') (\<lambda>c. Option.bind c pf)) ps"
    unfolding sc using cell' by simp
  moreover have "filter (\<lambda>p. Option.bind (p ''Fit Score'') (\<lambda>c. Option.bind c pf) = Some v) ps =
                 filter (\<lambda>p. Option.bind (p ''Fit Score'') (\<lambda>c. Option.bind c pf) = Some v) rows" for v
  proof -
    have "filter (\<lambda>p. Option.bind (p ''Fit Score'') (\<lambda>c. Option.bind c pf) = Some v) ps = filter (\<lambda>p. k p = v) ps"
      by (rule filter_cong) (simp_all add: cell')
    also have "\<dots> = filter (\<lambda>p. k p = v) rows"
      unfolding ps by (rule sort_desc_stable)
    also have "\<dots> = filter (\<lambda>p. Option.bind (p ''Fit Score'') (\<lambda>c. Option.bind c pf) = Some v) rows"
      by (rule filter_cong) (simp_all add: cell)
    finally show ?thesis .
  qed
  ultimately show "\<exists>ps. mset ps = mset rows \<and>
            map (\<lambda>n. Some (Some n)) (bar_names chart) = map (\<lambda>p. p ''Name'') ps \<and>
            map Some (bar_scores chart) = map (\<lambda>p. Option.bind (p ''Fit Score'') (\<lambda>c. Option.bind c pf)) ps \<and>
            sorted_wrt (\<ge>) (bar_scores chart) \<and>
            (\<forall>v. filter (\<lambda>p. Option.bind (p ''Fit Score'') (\<lambda>c. Option.bind c pf) = Some v) ps =
                 filter (\<lambda>p. Option.bind (p ''Fit Score'') (\<lambda>c. Option.bind c pf) = Some v) rows)"
    using perm n sc by (intro exI [of _ ps]) simp
next
  have e: "map bar_entry (SquadFitChart sf) = take 15 (sort_desc score sf)"
    by (simp add: SquadFitChart_def Let_def comp_def)
  have "sorted_wrt (\<ge>) (map score (take 15 (sort_desc score sf)))"
    unfolding sorted_wrt_map by (rule sorted_wrt_take) (rule sorted_sort_desc)
  then show "sorted_wrt (\<ge>) (map (score \<circ> bar_entry) (SquadFitChart sf))"
    unfolding map_comp_map [symmetric] comp_apply e by simp
  have "mset (take 15 (sort_desc score sf)) \<subseteq># mset (sort_desc score sf)"
    by (metis append_take_drop_id mset_append mset_subset_eq_add_left)
  then show "mset (map bar_entry (SquadFitChart sf)) \<subseteq># mset sf"
    unfolding e by (simp add: mset_sort_desc)
  have "length (sort_desc score sf) = length sf"
    by (metis mset_sort_desc size_mset)
  then show "length (SquadFitChart sf) = min 15 (length sf)"
    by (simp add: SquadFitChart_def Let_def min.commute)
  fix v
  have "prefix (filter (\<lambda>e. score e = v) (take 15 (sort_desc score sf)))
               (filter (\<lambda>e. score e = v) (sort_desc score sf))"
    by (intro filter_mono_prefix take_is_prefix)
  then show "prefix (filter (\<lambda>e. score e = v) (map bar_entry (SquadFitChart sf)))
               (filter (\<lambda>e. score e = v) sf)"
    unfolding e by (simp add: sort_desc_stable)
qed


lemma legend_handles:
  "collect (\<lambda>c. rbind (dict_item COLORS c) (\<lambda>col. Inr (col, c))) classification_labels =
     Inr [(''#22c55e'', ''Key Enabler''), (''#eab308'', ''Good Fit''),
          (''#f97316'', ''System Dependent''), (''#ef4444'', ''Potentially Marginalised'')]"
  by (simp add: classification_labels_def dict_item_def COLORS_def)

text \<open>The ranking chart is produced whenever there is a row and every row has a name, a
  score cell that \<^verbatim>\<open>float\<close> accepts and a classification column.\<close>

lemma squad_fit_chart_returns:
  assumes "rows \<noteq> []"
    and "\<forall>r \<in> set rows. (\<exists>n. r ''Name'' = Some (Some n)) \<and> r ''Classification'' \<noteq> None \<and>
           (\<exists>s v. r ''Fit Score'' = Some (Some s) \<and> pf s = Some v)"
  shows "\<exists>chart. squad_fit_chart pf True rows = Inr (Some chart)"
proof -
  have "\<exists>keys. collect (fit_key pf) rows = Inr keys"
  proof (rule collect_returns, rule ballI)
    fix r assume "r \<in> set rows"
    with assms(2) obtain s v where "r ''Fit Score'' = Some (Some s)" and "pf s = Some v"
      by blast
    then show "\<exists>y. fit_key pf r = Inr y"
      by (simp add: fit_key_def to_float_def)
  qed
  then obtain ps where sp: "sort_players pf rows = Inr ps"
    by (auto simp: sort_players_def)
  have "mset ps = mset rows"
    using sort_players_eq [OF sp] by (simp add: mset_sort_desc)
  then have mem: "set ps = set rows"
    by (metis set_mset_mset)
  have "\<exists>names. collect (\<lambda>p. item ''Name'' (p ''Name'')) ps = Inr names"
  proof (rule collect_returns, rule ballI)
    fix p assume "p \<in> set ps"
    with assms(2) mem obtain v where "p ''Name'' = Some (Some v)"
      by blast
    then show "\<exists>y. item ''Name'' (p ''Name'') = Inr y"
      by (simp add: item_def)
  qed
  then obtain names where n: "collect (\<lambda>p. item ''Name'' (p ''Name'')) ps = Inr names" ..
  have "\<exists>scores. collect (\<lambda>p. rbind (item ''Fit Score'' (p ''Fit Score'')) (to_float pf)) ps
          = Inr scores"
  proof (rule collect_returns, rule ballI)
    fix p assume "p \<in> set ps"
    with assms(2) mem obtain s v where "p ''Fit Score'' = Some (Some s)" and "pf s = Some v"
      by blast
    then show "\<exists>y. rbind (item ''Fit Score'' (p ''Fit Score'')) (to_float pf) = Inr y"
      by (simp add: item_def to_float_def)
  qed
  then obtain scores where s:
    "collect (\<lambda>p. rbind (item ''Fit Score'' (p ''Fit Score'')) (to_float pf)) ps = Inr scores" ..
  have "\<exists>cs. collect (\<lambda>p. item ''Classification'' (p ''Classification'')) ps = Inr cs"
  proof (rule collect_returns, rule ballI)
    fix p assume "p \<in> set ps"
    with assms(2) mem obtain v where "p ''Classification'' = Some v"
      by blast
    then show "\<exists>y. item ''Classification'' (p ''Classification'') = Inr y"
      by (simp add: item_def)
  qed
  then obtain cs where c:
    "collect (\<lambda>p. item ''Classification'' (p ''Classification'')) ps = Inr cs" ..
  have "\<exists>colors. collect cell_color cs = Inr colors"
    by (rule collect_returns) (simp add: cell_color_returns)
  then obtain colors where k: "collect cell_color cs = Inr colors" ..
  have "\<exists>bars. collect bar_label names = Inr bars"
  proof (rule collect_returns, rule ballI)
    fix c assume "c \<in> set names"
    then have "Some c \<in> set (map Some names)"
      by simp
    then have "Some c \<in> set (map (\<lambda>p. p ''Name'') ps)"
      unfolding collect_item_map [OF n] .
    then obtain p where "p \<in> set ps" and "p ''Name'' = Some c"
      by auto
    with assms(2) mem obtain v where "c = Some v"
      by fastforce
    then show "\<exists>y. bar_label c = Inr y"
      by (simp add: bar_label_def)
  qed
  then obtain bars where b: "collect bar_label names = Inr bars" ..
  show ?thesis
    unfolding squad_fit_chart_def sp rbind_Inr n s c k b legend_handles
    using assms(1) by simp
qed

lemma example_chart:
  "squad_fit_chart example_float True example_rows =
     Inr (Some \<lparr> bar_names = [''Bo'', ''Ann'', ''Cy''], bar_scores = [80, 70, 70],
                 bar_colors = [''#22c55e'', ''#eab308'', ''#64748b''],
                 fit_legend = [(''#22c55e'', ''Key Enabler''), (''#eab308'', ''Good Fit''),
                   (''#f97316'', ''System Dependent''),
                   (''#ef4444'', ''Potentially Marginalised'')] \<rparr>)"
  unfolding squad_fit_chart_def legend_handles
  by (simp add: example_rows_def example_float_def sort_players_def fit_key_def to_float_def
        item_def cell_color_def bar_label_def classification_color_eq dict_get_def COLORS_def)

lemma example_bars:
  "map (entry_name \<circ> bar_entry) (SquadFitChart example_entries) =
     [Some ''Bo'', Some ''Ann'', Some ''Cy'']"
  by (simp add: SquadFitChart_def example_entries_def Let_def)


theorem squad_fit_stable_sort_witness:
  "(case squad_fit_chart example_float True example_rows of
      Inr (Some chart) \<Rightarrow>
        bar_names chart = [''Bo'', ''Ann'', ''Cy''] \<and> sorted_wrt (\<ge>) (bar_scores chart)
    | _ \<Rightarrow> False) \<and>
   map (entry_name \<circ> bar_entry) (SquadFitChart example_entries) =
     [Some ''Bo'', Some ''Ann'', Some ''Cy''] \<and>
   sorted_wrt (\<ge>) (map (score \<circ> bar_entry) (SquadFitChart example_entries))"
proof -
  obtain chart where run: "squad_fit_chart example_float True example_rows = Inr (Some chart)"
    and names: "bar_names chart = [''Bo'', ''Ann'', ''Cy'']"
    using example_chart by simp
  from squad_fit_stable_sort [of example_float True example_rows chart example_entries] run
  have "sorted_wrt (\<ge>) (bar_scores chart)"
    and "sorted_wrt (\<ge>) (map (score \<circ> bar_entry) (SquadFitChart example_entries))"
    by blast+
  then show ?thesis
    using run names example_bars by simp
qed

subsection \<open>Ideal XI pitch\<close>

text \<open>The static pitch skips an assignment whose key is not in its table, whatever else the
  list holds, and draws the others as if the skipped ones were not there.\<close>

lemma draw_players_filter:
  "draw_players xi =
     draw_players (filter (\<lambda>p. get (position p) '''' \<in> fst ` set positions) xi)"
proof (induction xi)
  case Nil
  then show ?case by simp
next
  case (Cons p xi)
  show ?case
  proof (cases "map_of positions (get (position p) '''')")
    case None
    then have "get (position p) '''' \<notin> fst ` set positions"
      by (simp add: map_of_eq_None_iff)
    with None Cons show ?thesis by simp
  next
    case (Some xy)
    then have "get (position p) '''' \<in> fst ` set positions"
      by (metis map_of_eq_None_iff option.distinct(1))
    with Some Cons show ?thesis by (simp split: prod.splits)
  qed
qed

lemma draw_players_known:
  assumes "map_of positions (get (position p) '''') = Some (x, y)"
    and "last_token (get (name p) '''') = Inr t"
    and "draw_players rest = Inr ms"
  shows "\<exists>m. draw_players (p # rest) = Inr (m # ms) \<and> circle_xy m = (x, y) \<and> name_text m = t"
  using assms by (simp add: dict_item_def COLORS_def Let_def)

text \<open>The dashboard pitch renders each assignment on its own. It skips a key that is neither
  in its table nor the name of a member that object literals inherit.\<close>

lemma render_player_unknown:
  assumes "property_key (position p) \<notin> fst ` set pitch_positions"
    and "property_key (position p) \<notin> set object_prototype_names"
  shows "render_player p = None"
proof -
  have "map_of pitch_positions (property_key (position p)) = None"
    using assms(1) by (simp add: map_of_eq_None_iff)
  then show ?thesis
    using assms(2) by (simp add: render_player_def js_get_def)
qed

lemma render_player_known:
  assumes "map_of pitch_positions (property_key (position p)) = Some (x, y)"
  shows "\<exists>m. render_player p = Some m \<and> style_left m = Some x \<and> style_top m = Some y"
  using assms by (simp add: render_player_def js_get_def Let_def)

lemma IdealXIPitch_nth:
  "i < length xi \<Longrightarrow> IdealXIPitch xi ! i = render_player (xi ! i)"
  by (simp add: IdealXIPitch_def)

text \<open>
  C7 at the input \<^verbatim>\<open>ideal_xi = [{"position": "toString", "name": "Ann Lee", "fit_score": 80}]\<close>.
  The key is in neither coordinate table. The static pitch draws no marker. The dashboard
  pitch reads the inherited member \<^verbatim>\<open>positions["toString"]\<close>, which is truthy, and renders
  the player, with no left or top coordinate.
\<close>

theorem pitch_inherited_key_rendered:
  "map_of positions ''toString'' = None \<and>
   map_of pitch_positions ''toString'' = None \<and>
   draw_players
     [\<lparr> position = Some ''toString'', name = Some ''Ann Lee'', fit_score = Some 80 \<rparr>] = Inr [] \<and>
   IdealXIPitch
     [\<lparr> position = Some ''toString'', name = Some ''Ann Lee'', fit_score = Some 80 \<rparr>] =
     [Some \<lparr> style_left = None, style_top = None, bgColor = ''bg-green-500'',
             score_label = 80, surname = ''Lee'' \<rparr>]"
  by (simp add: positions_def pitch_positions_def get_def IdealXIPitch_def render_player_def
        property_key_def js_get_def object_prototype_names_def js_or_zero_def)

subsection \<open>DNA radar\<close>

lemma linspace_length [simp]: "length (linspace a b n) = n"
  by (simp add: linspace_def)

lemma linspace_nth: "i < n \<Longrightarrow> linspace a b n ! i = a + real i * ((b - a) / real n)"
  by (simp add: linspace_def)

lemma butlast_closed: "xs \<noteq> [] \<Longrightarrow> butlast (xs @ take (Suc 0) xs) = xs"
  by (cases xs) (simp_all add: butlast_append)

lemma dna_radar_scatter:
  assumes "dims \<noteq> []"
  shows "scatter_angles (dna_radar dims mgr) = linspace 0 (2 * pi) (length dims)"
    and "scatter_values (dna_radar dims mgr) = map snd dims"
proof -
  have "linspace 0 (2 * pi) (length dims) \<noteq> []"
    using assms by (metis length_0_conv linspace_length)
  then show "scatter_angles (dna_radar dims mgr) = linspace 0 (2 * pi) (length dims)"
    by (simp add: dna_radar_def Let_def butlast_closed)
  show "scatter_values (dna_radar dims mgr) = map snd dims"
    using assms by (simp add: dna_radar_def Let_def butlast_closed)
qed

lemma DNARadar_points:
  "points (DNARadar dims) = map (\<lambda>(i, d). radar_point_of (length dims) i d) (enumerate 0 dims)"
  by (simp add: DNARadar_def Let_def)

lemma DNARadar_point:
  assumes "i < length dims"
  shows "points (DNARadar dims) ! i = radar_point_of (length dims) i (dims ! i)"
  using assms by (simp add: DNARadar_points nth_enumerate_eq)

lemma degrees_vertex_angle:
  assumes "0 < n"
  shows "degrees (vertex_angle n i) = real i * (360 / real n) - 90"
  using assms by (simp add: degrees_def vertex_angle_def angleStep_def field_simps)

lemma degrees_linspace:
  assumes "i < n"
  shows "degrees (linspace 0 (2 * pi) n ! i) = real i * (360 / real n)"
  using assms by (simp add: degrees_def linspace_nth field_simps)

text \<open>
  C1, as the code has it. For \<open>n \<ge> 1\<close> dimensions the dashboard's \<^verbatim>\<open>DNARadar\<close> places vertex
  \<open>i\<close> at the angle \<open>i * (360 / n) - 90\<close> degrees, at the distance \<open>(value / 100) * radius\<close>
  from the centre \<open>(cx, cy)\<close>. The static \<^verbatim>\<open>plot_dna_radar\<close> gives vertex \<open>i\<close> the polar angle
  \<open>i * (360 / n)\<close> degrees, with no offset of \<open>90\<close> degrees, and the value itself as radial
  coordinate on an axis from \<open>0\<close> to \<open>100\<close>. The two agree on the spacing of the angles and
  on the fraction \<open>value / 100\<close> of the full radius.
\<close>

theorem radar_vertex_geometry:
  "i < length dims \<longrightarrow>
     degrees (vertex_angle (length dims) i) = real i * (360 / real (length dims)) - 90 \<and>
     vertex_r (snd (dims ! i)) = (snd (dims ! i) / 100) * radius \<and>
     point_x (points (DNARadar dims) ! i) =
       cx + vertex_r (snd (dims ! i)) * cos (vertex_angle (length dims) i) \<and>
     point_y (points (DNARadar dims) ! i) =
       cy + vertex_r (snd (dims ! i)) * sin (vertex_angle (length dims) i) \<and>
     length (points (DNARadar dims)) = length dims \<and>
     length (scatter_angles (dna_radar dims mgr)) = length dims \<and>
     degrees (scatter_angles (dna_radar dims mgr) ! i) = real i * (360 / real (length dims)) \<and>
     scatter_values (dna_radar dims mgr) ! i = snd (dims ! i) \<and>
     ylim (dna_radar dims mgr) = (0, 100)"
proof
  assume i: "i < length dims"
  then have ne: "dims \<noteq> []" by (cases dims) simp_all
  have "degrees (vertex_angle (length dims) i) = real i * (360 / real (length dims)) - 90"
    using ne by (intro degrees_vertex_angle) simp
  moreover have "vertex_r (snd (dims ! i)) = (snd (dims ! i) / 100) * radius"
    by (simp add: vertex_r_def)
  moreover have "point_x (points (DNARadar dims) ! i) =
       cx + vertex_r (snd (dims ! i)) * cos (vertex_angle (length dims) i)"
    and "point_y (points (DNARadar dims) ! i) =
       cy + vertex_r (snd (dims ! i)) * sin (vertex_angle (length dims) i)"
    unfolding DNARadar_point [OF i] by (simp_all add: radar_point_of_def Let_def)
  moreover have "length (points (DNARadar dims)) = length dims"
    by (simp add: DNARadar_points)
  moreover have "length (scatter_angles (dna_radar dims mgr)) = length dims"
    by (simp add: dna_radar_scatter [OF ne])
  moreover have "degrees (scatter_angles (dna_radar dims mgr) ! i) =
       real i * (360 / real (length dims))"
    unfolding dna_radar_scatter [OF ne] using i by (rule degrees_linspace)
  moreover have "scatter_values (dna_radar dims mgr) ! i = snd (dims ! i)"
    using i by (simp add: dna_radar_scatter [OF ne])
  moreover have "ylim (dna_radar dims mgr) = (0, 100)"
    by (simp add: dna_radar_def Let_def)
  ultimately show "degrees (vertex_angle (length dims) i) =
       real i * (360 / real (length dims)) - 90 \<and>
     vertex_r (snd (dims ! i)) = (snd (dims ! i) / 100) * radius \<and>
     point_x (points (DNARadar dims) ! i) =
       cx + vertex_r (snd (dims ! i)) * cos (vertex_angle (length dims) i) \<and>
     point_y (points (DNARadar dims) ! i) =
       cy + vertex_r (snd (dims ! i)) * sin (vertex_angle (length dims) i) \<and>
     length (points (DNARadar dims)) = length dims \<and>
     length (scatter_angles (dna_radar dims mgr)) = length dims \<and>
     degrees (scatter_angles (dna_radar dims mgr) ! i) = real i * (360 / real (length dims)) \<and>
     scatter_values (dna_radar dims mgr) ! i = snd (dims ! i) \<and>
     ylim (dna_radar dims mgr) = (0, 100)"
    by blast
qed

theorem radar_vertex_geometry_witness:
  "(2::nat) < length example_dims \<and>
   degrees (vertex_angle 3 2) = 150 \<and>
   degrees (scatter_angles (dna_radar example_dims ''Frank'') ! 2) = 240 \<and>
   vertex_r 50 = 50 \<and>
   scatter_values (dna_radar example_dims ''Frank'') ! 2 = 50"
proof -
  have len: "length example_dims = 3" and nth: "example_dims ! 2 = (''C'', 50)"
    by (simp_all add: example_dims_def)
  from radar_vertex_geometry [of 2 example_dims "''Frank''"]
  show ?thesis
    unfolding len nth by (simp add: radius_def)
qed

text \<open>
  C1 as stated fails on the specification's own example \<^verbatim>\<open>{"A": 100, "B": 0, "C": 50}\<close>: the
  dashboard's angles are \<open>-90\<close>, \<open>30\<close> and \<open>150\<close> degrees, those of the static chart \<open>0\<close>,
  \<open>120\<close> and \<open>240\<close>.
\<close>

theorem radar_static_angle_counterexample:
  "map degrees (scatter_angles (dna_radar example_dims ''Frank'')) = [0, 120, 240] \<and>
   [degrees (vertex_angle 3 0), degrees (vertex_angle 3 1), degrees (vertex_angle 3 2)] =
     [-90, 30, 150] \<and>
   degrees (scatter_angles (dna_radar example_dims ''Frank'') ! 0) \<noteq>
     real 0 * (360 / real (length example_dims)) - 90"
proof -
  have ne: "example_dims \<noteq> []" and len: "length example_dims = 3"
    by (simp_all add: example_dims_def)
  have "[0..<3] = [0, 1, 2]"
    by (simp add: upt_rec)
  then have a: "map degrees (scatter_angles (dna_radar example_dims ''Frank'')) = [0, 120, 240]"
    unfolding dna_radar_scatter [OF ne] len by (simp add: linspace_def degrees_def)
  have b: "[degrees (vertex_angle 3 0), degrees (vertex_angle 3 1), degrees (vertex_angle 3 2)] =
     [-90, 30, 150]"
    using degrees_vertex_angle [of 3] by simp
  from a have "degrees (scatter_angles (dna_radar example_dims ''Frank'') ! 0) = 0"
    by (metis linspace_length dna_radar_scatter(1) ne len nth_Cons_0 nth_map
        zero_less_numeral)
  with a b show ?thesis
    by simp
qed

text \<open>
  C9. With no dimensions the static routine draws a frame with no outline, vertex, tick or
  label, saves it and returns; the dashboard's \<^verbatim>\<open>DNARadar\<close> renders the four grid circles
  with no spoke and no vertex, its path holding the closing command only.
\<close>

theorem radar_empty_frame:
  "dna_radar [] mgr =
     \<lparr> line_angles = [], line_values = [], scatter_angles = [], scatter_values = [],
       xticks = [], xticklabels = [], ylim = (0, 100), radar_title = ''Manager DNA: '' @ mgr \<rparr> \<and>
   DNARadar [] =
     \<lparr> gridCircles = [25, 50, 75, 100], gridLines = [], pathD = [ClosePath], points = [] \<rparr> \<and>
   (results self = Some res \<and> get (dna_dimensions res) [] = [] \<and> plt self \<longrightarrow>
      plot_dna_radar self =
        (Inr (), print (Saved ''01_manager_dna_radar.png'')
           (self\<lparr> files := files self @
              [(''01_manager_dna_radar.png'',
                RadarPng (dna_radar [] (get (manager res) ''Unknown'')))] \<rparr>)))"
proof (intro conjI impI)
  show "dna_radar [] mgr =
     \<lparr> line_angles = [], line_values = [], scatter_angles = [], scatter_values = [],
       xticks = [], xticklabels = [], ylim = (0, 100), radar_title = ''Manager DNA: '' @ mgr \<rparr>"
    by (simp add: dna_radar_def linspace_def)
next
  show "DNARadar [] =
     \<lparr> gridCircles = [25, 50, 75, 100], gridLines = [], pathD = [ClosePath], points = [] \<rparr>"
    by (simp add: DNARadar_def enumerate_eq_zip radius_def)
next
  assume "results self = Some res \<and> get (dna_dimensions res) [] = [] \<and> plt self"
  then show "plot_dna_radar self =
        (Inr (), print (Saved ''01_manager_dna_radar.png'')
           (self\<lparr> files := files self @
              [(''01_manager_dna_radar.png'',
                RadarPng (dna_radar [] (get (manager res) ''Unknown'')))] \<rparr>))"
    by (simp add: plot_dna_radar_def savefig_def)
qed

theorem radar_empty_frame_witness:
  "results no_dims_visualizer \<noteq> None \<and> plt no_dims_visualizer \<and>
   fst (plot_dna_radar no_dims_visualizer) = Inr () \<and>
   files (snd (plot_dna_radar no_dims_visualizer)) =
     [(''01_manager_dna_radar.png'',
       RadarPng \<lparr> line_angles = [], line_values = [], scatter_angles = [], scatter_values = [],
         xticks = [], xticklabels = [], ylim = (0, 100),
         radar_title = ''Manager DNA: Frank'' \<rparr>)] \<and>
   points (DNARadar []) = []"
  using radar_empty_frame [of "''Frank''" no_dims_visualizer
      "example_result\<lparr> dna_dimensions := Some [] \<rparr>"]
  by (simp add: no_dims_visualizer_def new_visualizer_def example_result_def get_def print_def)

subsection \<open>load_results\<close>

text \<open>
  C3, as the code has it. \<^verbatim>\<open>load_results\<close> raises FileNotFoundError whenever the results
  document is absent, and leaves the visualizer as it was. When the document is present and
  only the squad table is absent it succeeds, prints the line for the loaded results and
  nothing else, and leaves \<^verbatim>\<open>squad_fit_data\<close> as it was, which is \<^verbatim>\<open>None\<close> on a new
  visualizer. The notice about the missing squad data is printed later, by
  \<^verbatim>\<open>plot_squad_fit\<close>, which then returns without drawing.
\<close>

theorem load_results_outcomes:
  "(results_file env = None \<longrightarrow> load_results env self = (Inl FileNotFoundError, self)) \<and>
   (results_file env = Some (Document doc) \<and> squad_file env = None \<longrightarrow>
      load_results env self =
        (Inr (), print (LoadedResults (get (manager doc) ''Unknown''))
                   (self\<lparr> results := Some doc \<rparr>)) \<and>
      squad_fit_data (snd (load_results env self)) = squad_fit_data self \<and>
      squad_fit_data (snd (load_results env (new_visualizer m))) = None) \<and>
   (squad_file env = None \<longrightarrow> plot_squad_fit env self = (Inr (), print NoSquadFitData self))"
  by (simp add: load_results_def print_def new_visualizer_def plot_squad_fit_def
        squad_fit_chart_def)

theorem load_results_outcomes_witness:
  "results_file no_json_env = None \<and>
   load_results no_json_env (new_visualizer True) = (Inl FileNotFoundError, new_visualizer True) \<and>
   results_file no_csv_env = Some (Document example_result) \<and> squad_file no_csv_env = None \<and>
   fst (load_results no_csv_env (new_visualizer True)) = Inr () \<and>
   results (snd (load_results no_csv_env (new_visualizer True))) = Some example_result \<and>
   squad_fit_data (snd (load_results no_csv_env (new_visualizer True))) = None \<and>
   fst (plot_squad_fit no_csv_env (new_visualizer True)) = Inr ()"
  using load_results_outcomes [of no_json_env "new_visualizer True" example_result True]
    load_results_outcomes [of no_csv_env "new_visualizer True" example_result True]
  by (simp add: no_json_env_def no_csv_env_def example_env_def print_def new_visualizer_def)

text \<open>
  C3 as stated fails: after a load with only the squad table absent the row collection is
  \<^verbatim>\<open>None\<close>, not an empty list, and the only line printed is the one for the loaded results.
\<close>

theorem load_results_counterexample:
  "fst (load_results no_csv_env (new_visualizer True)) = Inr () \<and>
   squad_fit_data (snd (load_results no_csv_env (new_visualizer True))) \<noteq> Some [] \<and>
   printed (snd (load_results no_csv_env (new_visualizer True))) = [LoadedResults ''Frank'']"
  by (simp add: load_results_def no_csv_env_def example_env_def new_visualizer_def print_def
        example_result_def get_def)

subsection \<open>plot_all\<close>








subsection \<open>generate_dashboard\<close>

lemma to_entry_returns:
  assumes "\<forall>c. p ''Age'' = Some c \<longrightarrow> (\<exists>s. c = Some s \<and> py_int env s \<noteq> None)"
    and "\<forall>c. p ''Fit Score'' = Some c \<longrightarrow> (\<exists>s. c = Some s \<and> py_float env s \<noteq> None)"
  shows "\<exists>entry. to_entry env p = Inr entry"
proof -
  have "\<exists>a. (case p ''Age'' of None \<Rightarrow> Inr 25 | Some c \<Rightarrow> to_int (py_int env) c) = Inr a"
    using assms(1) by (auto simp: to_int_def split: option.splits)
  moreover have "\<exists>v. fit_key (py_float env) p = Inr v"
    using assms(2) by (auto simp: fit_key_def to_float_def split: option.splits)
  ultimately show ?thesis
    by (auto simp: to_entry_def)
qed

lemma generate_dashboard_raised:
  assumes "fst (generate_dashboard env filename self) = Inl e"
  shows "files (snd (generate_dashboard env filename self)) = files self"
  using assms
  by (auto simp: generate_dashboard_def print_def Let_def split: option.splits sum.splits
        if_splits)

lemma generate_dashboard_unloaded:
  assumes "results self = None \<or> (\<exists>res. results self = Some res \<and> is_empty_dict res)"
  shows "generate_dashboard env filename self = (Inl ValueError, self)"
  using assms by (auto simp: generate_dashboard_def)

lemma generate_dashboard_written:
  assumes "results self = Some res" and "\<not> is_empty_dict res"
    and "collect (to_entry env) (get (squad_fit_data self) []) = Inr entries"
  shows "generate_dashboard env filename self =
     (Inr filename,
      print (DashboardSaved filename)
        ((print GeneratingDashboard self)\<lparr> files := files self @
           [(filename, DashboardHtml
              \<lparr> managerName = get (manager res) ''Unknown'',
                primaryFormation = get (primary_formation res) ''4-3-3'',
                matchesAnalysed = get (matches_analysed res) 0,
                dnaDimensions = get (dna_dimensions res) [],
                squadSummary = get (squad_summary res) no_summary,
                squadFit = entries,
                idealXI = get (ideal_xi res) [],
                recruitment_list = get (recruitment res) [] \<rparr>)] \<rparr>))"
  using assms by (simp add: generate_dashboard_def print_def Let_def)

text \<open>
  C10, as the code has it. \<^verbatim>\<open>generate_dashboard\<close> raises ValueError and writes nothing
  whenever \<^verbatim>\<open>self.results\<close> is \<^verbatim>\<open>None\<close> or the document \<^verbatim>\<open>{}\<close>, which has no key at all.
  When the results are a document with a key and, in every loaded squad row, the cell of the
  \<^verbatim>\<open>Age\<close> column is a text that \<^verbatim>\<open>int\<close> accepts and the cell of the \<^verbatim>\<open>Fit Score\<close> column a
  text that \<^verbatim>\<open>float\<close> accepts (for each of the two columns that the table has), it writes
  one document under the given file name, embedding the lists of the results and one entry
  for each squad row, and returns the file name. Whenever it raises, it has written nothing.
\<close>

theorem generate_dashboard_outcomes:
  "((results self = None \<or> (\<exists>res. results self = Some res \<and> is_empty_dict res)) \<longrightarrow>
      generate_dashboard env filename self = (Inl ValueError, self)) \<and>
   (results self = Some res \<and> \<not> is_empty_dict res \<and>
    (\<forall>p \<in> set (get (squad_fit_data self) []).
       (\<forall>c. p ''Age'' = Some c \<longrightarrow> (\<exists>s. c = Some s \<and> py_int env s \<noteq> None)) \<and>
       (\<forall>c. p ''Fit Score'' = Some c \<longrightarrow> (\<exists>s. c = Some s \<and> py_float env s \<noteq> None))) \<longrightarrow>
      (\<exists>html.
         generate_dashboard env filename self =
           (Inr filename,
            print (DashboardSaved filename)
              ((print GeneratingDashboard self)\<lparr> files := files self @
                 [(filename, DashboardHtml html)] \<rparr>)) \<and>
         length (squadFit html) = length (get (squad_fit_data self) []) \<and>
         dnaDimensions html = get (dna_dimensions res) [] \<and>
         idealXI html = get (ideal_xi res) [] \<and>
         recruitment_list html = get (recruitment res) [])) \<and>
   (fst (generate_dashboard env filename self) = Inl e \<longrightarrow>
      files (snd (generate_dashboard env filename self)) = files self)"
proof (intro conjI impI)
  assume "results self = None \<or> (\<exists>res. results self = Some res \<and> is_empty_dict res)"
  then show "generate_dashboard env filename self = (Inl ValueError, self)"
    by (rule generate_dashboard_unloaded)
next
  assume a: "results self = Some res \<and> \<not> is_empty_dict res \<and>
    (\<forall>p \<in> set (get (squad_fit_data self) []).
       (\<forall>c. p ''Age'' = Some c \<longrightarrow> (\<exists>s. c = Some s \<and> py_int env s \<noteq> None)) \<and>
       (\<forall>c. p ''Fit Score'' = Some c \<longrightarrow> (\<exists>s. c = Some s \<and> py_float env s \<noteq> None)))"
  have "\<exists>entries. collect (to_entry env) (get (squad_fit_data self) []) = Inr entries"
  proof (rule collect_returns, rule ballI)
    fix p assume "p \<in> set (get (squad_fit_data self) [])"
    with a show "\<exists>y. to_entry env p = Inr y"
      by (intro to_entry_returns) blast+
  qed
  then obtain entries where
    e: "collect (to_entry env) (get (squad_fit_data self) []) = Inr entries" ..
  from a have r: "results self = Some res" and n: "\<not> is_empty_dict res"
    by simp_all
  show "\<exists>html.
         generate_dashboard env filename self =
           (Inr filename,
            print (DashboardSaved filename)
              ((print GeneratingDashboard self)\<lparr> files := files self @
                 [(filename, DashboardHtml html)] \<rparr>)) \<and>
         length (squadFit html) = length (get (squad_fit_data self) []) \<and>
         dnaDimensions html = get (dna_dimensions res) [] \<and>
         idealXI html = get (ideal_xi res) [] \<and>
         recruitment_list html = get (recruitment res) []"
    unfolding generate_dashboard_written [OF r n e]
    using collect_length [OF e]
    by (intro exI [of _ "\<lparr> managerName = get (manager res) ''Unknown'',
                primaryFormation = get (primary_formation res) ''4-3-3'',
                matchesAnalysed = get (matches_analysed res) 0,
                dnaDimensions = get (dna_dimensions res) [],
                squadSummary = get (squad_summary res) no_summary,
                squadFit = entries,
                idealXI = get (ideal_xi res) [],
                recruitment_list = get (recruitment res) [] \<rparr>"]) simp
next
  assume "fst (generate_dashboard env filename self) = Inl e"
  then show "files (snd (generate_dashboard env filename self)) = files self"
    by (rule generate_dashboard_raised)
qed

lemma example_load:
  "load_results example_env (new_visualizer True) =
     (Inr (), \<lparr> results = Some example_result, squad_fit_data = Some example_rows,
                plt = True, files = [], printed = [LoadedResults ''Frank''] \<rparr>)"
  by (simp add: load_results_def example_env_def new_visualizer_def print_def
        example_result_def get_def)

lemma club_load:
  "load_results club_env (new_visualizer True) =
     (Inr (), \<lparr> results = Some club_document, squad_fit_data = Some example_rows,
                plt = True, files = [], printed = [LoadedResults ''Unknown''] \<rparr>)"
  by (simp add: load_results_def club_env_def example_env_def new_visualizer_def print_def
        club_document_def empty_document_def get_def)

lemma example_cells:
  "\<forall>p \<in> set example_rows.
     (\<forall>c. p ''Age'' = Some c \<longrightarrow> (\<exists>s. c = Some s \<and> py_int env s \<noteq> None)) \<and>
     (\<forall>c. p ''Fit Score'' = Some c \<longrightarrow> (\<exists>s. c = Some s \<and> example_float s \<noteq> None))"
  by (simp add: example_rows_def example_float_def)

theorem generate_dashboard_outcomes_witness:
  "results (new_visualizer True) = None \<and>
   generate_dashboard example_env ''AEGIS_Dashboard.html'' (new_visualizer True) =
     (Inl ValueError, new_visualizer True) \<and>
   results (snd (load_results example_env (new_visualizer True))) = Some example_result \<and>
   \<not> is_empty_dict example_result \<and>
   fst (generate_dashboard example_env ''AEGIS_Dashboard.html''
          (snd (load_results example_env (new_visualizer True)))) =
     Inr ''AEGIS_Dashboard.html'' \<and>
   map fst (files (snd (generate_dashboard example_env ''AEGIS_Dashboard.html''
                          (snd (load_results example_env (new_visualizer True)))))) =
     [''AEGIS_Dashboard.html''] \<and>
   results (snd (load_results club_env (new_visualizer True))) = Some club_document \<and>
   \<not> is_empty_dict club_document \<and>
   fst (generate_dashboard club_env ''AEGIS_Dashboard.html''
          (snd (load_results club_env (new_visualizer True)))) =
     Inr ''AEGIS_Dashboard.html'' \<and>
   map fst (files (snd (generate_dashboard club_env ''AEGIS_Dashboard.html''
                          (snd (load_results club_env (new_visualizer True)))))) =
     [''AEGIS_Dashboard.html''] \<and>
   fst (generate_dashboard short_row_env ''AEGIS_Dashboard.html''
          (snd (load_results short_row_env (new_visualizer True)))) = Inl TypeError \<and>
   files (snd (generate_dashboard short_row_env ''AEGIS_Dashboard.html''
                 (snd (load_results short_row_env (new_visualizer True))))) = []"
proof -
  let ?self = "snd (load_results example_env (new_visualizer True))"
  let ?club = "snd (load_results club_env (new_visualizer True))"
  let ?short = "snd (load_results short_row_env (new_visualizer True))"
  have rows: "get (squad_fit_data ?self) [] = example_rows"
    and res: "results ?self = Some example_result" and fs: "files ?self = []"
    by (simp_all add: example_load get_def)
  have crows: "get (squad_fit_data ?club) [] = example_rows"
    and cres: "results ?club = Some club_document" and cfs: "files ?club = []"
    by (simp_all add: club_load get_def)
  have ne: "\<not> is_empty_dict example_result"
    by (simp add: is_empty_dict_def example_result_def)
  have cne: "\<not> is_empty_dict club_document"
    by (simp add: is_empty_dict_def club_document_def)
  have cells: "\<forall>p \<in> set example_rows.
       (\<forall>c. p ''Age'' = Some c \<longrightarrow> (\<exists>s. c = Some s \<and> py_int example_env s \<noteq> None)) \<and>
       (\<forall>c. p ''Fit Score'' = Some c \<longrightarrow>
          (\<exists>s. c = Some s \<and> py_float example_env s \<noteq> None))"
    using example_cells [of example_env] by (simp add: example_env_def)
  have ccells: "\<forall>p \<in> set example_rows.
       (\<forall>c. p ''Age'' = Some c \<longrightarrow> (\<exists>s. c = Some s \<and> py_int club_env s \<noteq> None)) \<and>
       (\<forall>c. p ''Fit Score'' = Some c \<longrightarrow>
          (\<exists>s. c = Some s \<and> py_float club_env s \<noteq> None))"
    using example_cells [of club_env] by (simp add: club_env_def example_env_def)
  from generate_dashboard_outcomes [of ?self example_env "''AEGIS_Dashboard.html''"
      example_result ValueError] res ne cells rows
  obtain html where "generate_dashboard example_env ''AEGIS_Dashboard.html'' ?self =
           (Inr ''AEGIS_Dashboard.html'',
            print (DashboardSaved ''AEGIS_Dashboard.html'')
              ((print GeneratingDashboard ?self)\<lparr> files := files ?self @
                 [(''AEGIS_Dashboard.html'', DashboardHtml html)] \<rparr>))"
    by auto
  then have "fst (generate_dashboard example_env ''AEGIS_Dashboard.html'' ?self) =
      Inr ''AEGIS_Dashboard.html''"
    and "map fst (files (snd (generate_dashboard example_env ''AEGIS_Dashboard.html'' ?self))) =
      [''AEGIS_Dashboard.html'']"
    by (simp_all add: print_def fs)
  moreover
  from generate_dashboard_outcomes [of ?club club_env "''AEGIS_Dashboard.html''"
      club_document ValueError] cres cne ccells crows
  obtain chtml where "generate_dashboard club_env ''AEGIS_Dashboard.html'' ?club =
           (Inr ''AEGIS_Dashboard.html'',
            print (DashboardSaved ''AEGIS_Dashboard.html'')
              ((print GeneratingDashboard ?club)\<lparr> files := files ?club @
                 [(''AEGIS_Dashboard.html'', DashboardHtml chtml)] \<rparr>))"
    by auto
  then have "fst (generate_dashboard club_env ''AEGIS_Dashboard.html'' ?club) =
      Inr ''AEGIS_Dashboard.html''"
    and "map fst (files (snd (generate_dashboard club_env ''AEGIS_Dashboard.html'' ?club))) =
      [''AEGIS_Dashboard.html'']"
    by (simp_all add: print_def cfs)
  moreover have "generate_dashboard example_env ''AEGIS_Dashboard.html'' (new_visualizer True) =
     (Inl ValueError, new_visualizer True)"
    using generate_dashboard_outcomes [of "new_visualizer True" example_env
        "''AEGIS_Dashboard.html''" example_result ValueError]
    by (simp add: new_visualizer_def)
  moreover
  have short: "fst (generate_dashboard short_row_env ''AEGIS_Dashboard.html'' ?short) =
      Inl TypeError"
    and sfs: "files ?short = []"
    by (simp_all add: load_results_def generate_dashboard_def short_row_env_def
          example_env_def new_visualizer_def print_def is_empty_dict_def example_result_def
          get_def to_entry_def to_int_def)
  from generate_dashboard_outcomes [of ?short short_row_env "''AEGIS_Dashboard.html''"
      example_result TypeError] short sfs
  have "files (snd (generate_dashboard short_row_env ''AEGIS_Dashboard.html'' ?short)) = []"
    by simp
  ultimately show ?thesis
    using res ne cres cne short by (simp add: new_visualizer_def)
qed

text \<open>
  C10 as stated fails in its second half. After \<^verbatim>\<open>load_results\<close> has loaded the document
  \<^verbatim>\<open>{}\<close> the results are set, yet \<^verbatim>\<open>not self.results\<close> holds and ValueError is raised. With
  a loaded document that has keys, a squad row whose age is the text \<^verbatim>\<open>27.5\<close> makes \<^verbatim>\<open>int\<close>
  raise ValueError, and a squad row that is shorter than the header makes \<^verbatim>\<open>int\<close> raise
  TypeError on the missing cell, before anything is written.
\<close>

theorem generate_dashboard_counterexample:
  "fst (load_results empty_json_env (new_visualizer True)) = Inr () \<and>
   results (snd (load_results empty_json_env (new_visualizer True))) = Some empty_document \<and>
   fst (generate_dashboard empty_json_env ''AEGIS_Dashboard.html''
          (snd (load_results empty_json_env (new_visualizer True)))) = Inl ValueError \<and>
   fst (load_results bad_age_env (new_visualizer True)) = Inr () \<and>
   results (snd (load_results bad_age_env (new_visualizer True))) = Some example_result \<and>
   fst (generate_dashboard bad_age_env ''AEGIS_Dashboard.html''
          (snd (load_results bad_age_env (new_visualizer True)))) = Inl ValueError \<and>
   files (snd (generate_dashboard bad_age_env ''AEGIS_Dashboard.html''
                 (snd (load_results bad_age_env (new_visualizer True))))) = [] \<and>
   fst (load_results short_row_env (new_visualizer True)) = Inr () \<and>
   results (snd (load_results short_row_env (new_visualizer True))) = Some example_result \<and>
   fst (generate_dashboard short_row_env ''AEGIS_Dashboard.html''
          (snd (load_results short_row_env (new_visualizer True)))) = Inl TypeError \<and>
   files (snd (generate_dashboard short_row_env ''AEGIS_Dashboard.html''
                 (snd (load_results short_row_env (new_visualizer True))))) = []"
  by (simp add: load_results_def generate_dashboard_def empty_json_env_def bad_age_env_def
        short_row_env_def example_env_def new_visualizer_def print_def empty_document_def
        is_empty_dict_def example_result_def get_def to_entry_def to_int_def example_int_def)

end
